theory Spec2Isabelle
  imports
    Complex_Main
    "HOL-Library.Finite_Map"
    "HOL-Library.Char_ord"
    "HOL-Library.List_Lexorder"
    "HOL-Library.Signed_Division"
    "HOL-Library.Code_Target_Numeral"
begin

section \<open>Floating-point values\<close>

text \<open>
  A \<^verbatim>\<open>float\<close> of the source: a finite value, an infinity or a NaN. Finite values
  are read as reals and arithmetic on them as exact (no rounding, no overflow); the
  comparisons are the IEEE ones, which are exact on finite values and false as soon as
  one side is a NaN.
\<close>

datatype float = Finite real | PosInf | NegInf | NaN

fun float_less :: "float \<Rightarrow> float \<Rightarrow> bool" where
  "float_less NaN y = False"
| "float_less x NaN = False"
| "float_less (Finite x) (Finite y) = (x < y)"
| "float_less (Finite x) PosInf = True"
| "float_less NegInf (Finite y) = True"
| "float_less NegInf PosInf = True"
| "float_less x y = False"

fun float_le :: "float \<Rightarrow> float \<Rightarrow> bool" where
  "float_le NaN y = False"
| "float_le x NaN = False"
| "float_le (Finite x) (Finite y) = (x \<le> y)"
| "float_le x PosInf = True"
| "float_le NegInf y = True"
| "float_le x y = False"

fun float_add :: "float \<Rightarrow> float \<Rightarrow> float" where
  "float_add NaN y = NaN"
| "float_add x NaN = NaN"
| "float_add (Finite x) (Finite y) = Finite (x + y)"
| "float_add PosInf NegInf = NaN"
| "float_add NegInf PosInf = NaN"
| "float_add PosInf y = PosInf"
| "float_add x PosInf = PosInf"
| "float_add NegInf y = NegInf"
| "float_add x NegInf = NegInf"

text \<open>The sign of a product with an infinity; a zero factor gives a NaN.\<close>

definition float_inf :: "real \<Rightarrow> bool \<Rightarrow> float" where
  "float_inf x positive =
     (if x = 0 then NaN else if (0 < x) = positive then PosInf else NegInf)"

fun float_mul :: "float \<Rightarrow> float \<Rightarrow> float" where
  "float_mul NaN y = NaN"
| "float_mul x NaN = NaN"
| "float_mul (Finite x) (Finite y) = Finite (x * y)"
| "float_mul (Finite x) PosInf = float_inf x True"
| "float_mul (Finite x) NegInf = float_inf x False"
| "float_mul PosInf (Finite y) = float_inf y True"
| "float_mul NegInf (Finite y) = float_inf y False"
| "float_mul PosInf PosInf = PosInf"
| "float_mul NegInf NegInf = PosInf"
| "float_mul PosInf NegInf = NegInf"
| "float_mul NegInf PosInf = NegInf"

section \<open>JSON values\<close>

text \<open>
  The value type of \<^verbatim>\<open>nlohmann::json\<close>, the third-party library the manager stores
  its metadata in. An object is a \<^verbatim>\<open>std::map\<close> from strings to values: a finite map
  whose keys iterate in byte order.
\<close>

datatype json =
    JNull
  | JBool bool
  | JInt int
  | JUnsigned nat
  | JFloat float
  | JString string
  | JArray "json list"
  | JObject "(string, json) fmap"

text \<open>\<^verbatim>\<open>basic_json::type_name()\<close>, as used in the library's error messages.\<close>

fun type_name :: "json \<Rightarrow> string" where
  "type_name JNull = ''null''"
| "type_name (JBool b) = ''boolean''"
| "type_name (JString s) = ''string''"
| "type_name (JArray xs) = ''array''"
| "type_name (JObject m) = ''object''"
| "type_name j = ''number''"

text \<open>
  \<^verbatim>\<open>j[key] = v\<close> (\<^verbatim>\<open>operator[]\<close> with a string key, then assignment). A null value
  becomes an object first; an object gets the key inserted or overwritten; every other
  kind of value throws \<^verbatim>\<open>type_error 305\<close>, modelled as \<open>Inl\<close> of its message.
\<close>

definition json_set :: "string \<Rightarrow> json \<Rightarrow> json \<Rightarrow> string + json" where
  "json_set key v j =
     (case j of
        JNull \<Rightarrow> Inr (JObject (fmupd key v fmempty))
      | JObject m \<Rightarrow> Inr (JObject (fmupd key v m))
      | _ \<Rightarrow> Inl (''[json.exception.type_error.305] cannot use operator[] with a string argument with ''
                  @ type_name j))"

text \<open>Decimal digits of a natural number (\<^verbatim>\<open>std::to_string\<close>), for array indices.\<close>

fun to_string :: "nat \<Rightarrow> string" where
  "to_string n =
     (if n < 10 then [char_of (48 + n)]
      else to_string (n div 10) @ [char_of (48 + n mod 10)])"

text \<open>
  \<^verbatim>\<open>j.items()\<close>: the key/value pairs a range-for loop visits. An object yields its
  entries in key order, an array its elements under their decimal indices, null nothing,
  and any other value itself once under the empty key.
\<close>

fun json_items :: "json \<Rightarrow> (string \<times> json) list" where
  "json_items (JObject m) = sorted_list_of_fmap m"
| "json_items (JArray xs) = zip (map to_string [0..<length xs]) xs"
| "json_items JNull = []"
| "json_items j = [([], j)]"

text \<open>
  Whether a byte string is well-formed UTF-8 (no overlong form, no surrogate, nothing
  above U+10FFFF, no sequence cut short): what the strict decoder of \<^verbatim>\<open>dump\<close>
  accepts.
\<close>

definition continuation :: "nat \<Rightarrow> bool" where
  "continuation b = (128 \<le> b \<and> b \<le> 191)"

fun utf8_bytes :: "nat list \<Rightarrow> bool" where
  "utf8_bytes [] = True"
| "utf8_bytes (b # bs) =
     (if b < 128 then utf8_bytes bs
      else if 194 \<le> b \<and> b \<le> 223 then
        (case bs of c # r \<Rightarrow> continuation c \<and> utf8_bytes r | _ \<Rightarrow> False)
      else if 224 \<le> b \<and> b \<le> 239 then
        (case bs of
           c # d # r \<Rightarrow>
             (if b = 224 then 160 \<le> c \<and> c \<le> 191
              else if b = 237 then 128 \<le> c \<and> c \<le> 159
              else continuation c)
             \<and> continuation d \<and> utf8_bytes r
         | _ \<Rightarrow> False)
      else if 240 \<le> b \<and> b \<le> 244 then
        (case bs of
           c # d # e # r \<Rightarrow>
             (if b = 240 then 144 \<le> c \<and> c \<le> 191
              else if b = 244 then 128 \<le> c \<and> c \<le> 143
              else continuation c)
             \<and> continuation d \<and> continuation e \<and> utf8_bytes r
         | _ \<Rightarrow> False)
      else False)"

definition valid_utf8 :: "string \<Rightarrow> bool" where
  "valid_utf8 s = utf8_bytes (map of_char s)"

text \<open>
  \<^verbatim>\<open>j.dump(2)\<close> returns for a value all of whose strings and keys are valid UTF-8,
  and throws \<^verbatim>\<open>type_error 316\<close> otherwise.
\<close>

primrec json_dumpable :: "json \<Rightarrow> bool" where
  "json_dumpable JNull = True"
| "json_dumpable (JBool b) = True"
| "json_dumpable (JInt i) = True"
| "json_dumpable (JUnsigned n) = True"
| "json_dumpable (JFloat x) = True"
| "json_dumpable (JString s) = valid_utf8 s"
| "json_dumpable (JArray xs) = list_all (\<lambda>b. b) (map json_dumpable xs)"
| "json_dumpable (JObject m) = fmpred (\<lambda>k b. valid_utf8 k \<and> b) (fmmap json_dumpable m)"

text \<open>
  The value parsed back from the text of a dump. The text of a NaN or an infinity is
  \<^verbatim>\<open>null\<close>, and an integer written without a sign is read as an unsigned number;
  everything else is read back as it was.
\<close>

primrec json_reparse :: "json \<Rightarrow> json" where
  "json_reparse JNull = JNull"
| "json_reparse (JBool b) = JBool b"
| "json_reparse (JInt i) = (if 0 \<le> i then JUnsigned (nat i) else JInt i)"
| "json_reparse (JUnsigned n) = JUnsigned n"
| "json_reparse (JFloat x) = (case x of Finite r \<Rightarrow> JFloat x | _ \<Rightarrow> JNull)"
| "json_reparse (JString s) = JString s"
| "json_reparse (JArray xs) = JArray (map json_reparse xs)"
| "json_reparse (JObject m) = JObject (fmmap json_reparse m)"

section \<open>The environment: files and clocks\<close>

text \<open>
  What a path of the file system holds: a binary index snapshot (its content left to the
  index implementation, type \<open>'snap\<close>), a JSON document, or anything else.
\<close>

datatype 'snap fnode = IndexData 'snap | JsonDoc json | Opaque

text \<open>
  The part of the outside world the manager reads and writes. \<open>files\<close> maps a path to
  what is stored there. \<open>stat_error\<close> holds of the paths whose status the operating
  system refuses to give (a name that is too long, a directory that may not be
  searched, a loop of links). The other three predicates say which I/O calls can
  succeed: \<^verbatim>\<open>create_directories\<close> on a non-empty path, \<^verbatim>\<open>std::ofstream\<close> and
  \<^verbatim>\<open>std::ifstream\<close> opening. \<open>steady_now\<close> and
  \<open>system_now\<close> are the readings of \<^verbatim>\<open>steady_clock::now()\<close> and
  \<^verbatim>\<open>system_clock::now()\<close> in nanosecond ticks; one call of the manager is taken
  as instantaneous, so every read inside it gives the same reading.
\<close>

record 'snap world =
  files :: "string \<rightharpoonup> 'snap fnode"
  stat_error :: "string \<Rightarrow> bool"
  mkdir_ok :: "string \<Rightarrow> bool"
  write_ok :: "string \<Rightarrow> bool"
  read_ok :: "string \<Rightarrow> bool"
  steady_now :: int
  system_now :: int

text \<open>\<^verbatim>\<open>duration_cast<seconds>\<close> of a nanosecond count: division truncating towards zero.\<close>

definition to_seconds :: "int \<Rightarrow> int" where
  "to_seconds ticks = ticks sdiv 1000000000"

text \<open>\<^verbatim>\<open>path::parent_path()\<close>: the path without its last component.\<close>

definition parent_path :: "string \<Rightarrow> string" where
  "parent_path p =
     (let dir = dropWhile (\<lambda>c. c \<noteq> CHR ''/'') (rev p);
          stripped = rev (dropWhile (\<lambda>c. c = CHR ''/'') dir)
      in if dir \<noteq> [] \<and> stripped = [] then ''/'' else stripped)"

text \<open>
  \<^verbatim>\<open>std::filesystem::exists(p)\<close>, the overload that throws: \<open>Inl\<close> of the message
  of the \<^verbatim>\<open>filesystem_error\<close> when the status cannot be read, else whether
  something is stored at \<open>p\<close>.
\<close>

definition fs_exists :: "'snap world \<Rightarrow> string \<Rightarrow> string + bool" where
  "fs_exists w p =
     (if stat_error w p then Inl (''filesystem error: cannot get file status: '' @ p)
      else Inr (files w p \<noteq> None))"

text \<open>
  Whether \<^verbatim>\<open>std::filesystem::create_directories(p)\<close> returns; otherwise it throws.
  On the empty path it always throws.
\<close>

definition create_directories :: "'snap world \<Rightarrow> string \<Rightarrow> bool" where
  "create_directories w p = (if p = [] then False else mkdir_ok w p)"

section \<open>The vector index the manager wraps\<close>

text \<open>
  \<^verbatim>\<open>vector_search::SearchResult\<close>: the bindings read \<^verbatim>\<open>doc_id\<close>, \<^verbatim>\<open>similarity\<close>
  and \<^verbatim>\<open>content\<close> from it.
\<close>

record search_result =
  sr_doc_id :: string
  sr_similarity :: float
  sr_content :: string
  sr_metadata :: json

text \<open>
  What \<^verbatim>\<open>HNSWIndex::add_document\<close> can do: return true, return false, or throw a
  \<^verbatim>\<open>std::exception\<close> with a message.
\<close>

datatype add_outcome = Accepted | Refused | Raised string

text \<open>
  The class \<^verbatim>\<open>vector_search::HNSWIndex\<close> (\<^verbatim>\<open>vector_search/hnsw_index.hpp\<close>) is not
  among the sources, so the manager is modelled over an arbitrary implementation of the
  seven members it calls: the constructor (dimension, capacity, \<open>M\<close>,
  \<open>ef_construction\<close>), \<^verbatim>\<open>set_ef_search\<close>, \<^verbatim>\<open>add_document\<close>, \<^verbatim>\<open>search\<close>,
  \<^verbatim>\<open>size\<close>, \<^verbatim>\<open>save\<close> and \<^verbatim>\<open>load\<close>. \<open>'idx\<close> is the state of an index object.
  A \<^verbatim>\<open>save\<close> or \<^verbatim>\<open>load\<close> that throws counts as returning false: the manager
  catches the exception and returns false itself. The constructor, \<^verbatim>\<open>set_ef_search\<close>,
  \<^verbatim>\<open>search\<close> and \<^verbatim>\<open>size\<close> are taken to return, and \<^verbatim>\<open>search\<close> and
  \<^verbatim>\<open>size\<close> to leave the index as it is.
\<close>

record ('idx, 'snap) hnsw =
  hnsw_create :: "nat \<Rightarrow> nat \<Rightarrow> nat \<Rightarrow> nat \<Rightarrow> 'idx"
  hnsw_set_ef_search :: "nat \<Rightarrow> 'idx \<Rightarrow> 'idx"
  hnsw_add_document :: "string \<Rightarrow> float list \<Rightarrow> string \<Rightarrow> json \<Rightarrow> 'idx \<Rightarrow> add_outcome \<times> 'idx"
  hnsw_search :: "float list \<Rightarrow> nat \<Rightarrow> 'idx \<Rightarrow> search_result list"
  hnsw_size :: "'idx \<Rightarrow> nat"
  hnsw_save :: "string \<Rightarrow> 'idx \<Rightarrow> 'snap world \<Rightarrow> bool \<times> 'snap world"
  hnsw_load :: "string \<Rightarrow> 'snap world \<Rightarrow> 'idx \<Rightarrow> bool \<times> 'idx"

section \<open>The index manager's data\<close>

text \<open>
  \<^verbatim>\<open>IndexConfig\<close>; \<open>cfg_M\<close> is its member \<^verbatim>\<open>M\<close>, and \<open>save_interval\<close> is in
  seconds.
\<close>

record index_config =
  embedding_dim :: nat
  max_elements :: nat
  cfg_M :: nat
  ef_construction :: nat
  ef_search :: nat
  space_type :: string
  index_path :: string
  auto_save :: bool
  save_interval :: int
  batch_size :: nat
  num_threads :: int

text \<open>\<^verbatim>\<open>IndexStats\<close>; the two time points are clock readings.\<close>

record index_stats =
  total_documents :: nat
  total_vectors :: nat
  index_size_bytes :: nat
  last_update :: int
  created_at :: int

text \<open>
  \<^verbatim>\<open>BatchResult\<close>, without \<^verbatim>\<open>total_time\<close> (a measured duration, which an
  instantaneous call does not have).
\<close>

record batch_result =
  total :: nat
  successful :: nat
  failed :: nat
  error_messages :: "string list"

definition success_rate :: "batch_result \<Rightarrow> real" where
  "success_rate r = (if total r > 0 then real (successful r) / real (total r) else 0)"

text \<open>
  The members of \<^verbatim>\<open>IndexManager\<close>. \<open>mutex_locked\<close> is the state of \<^verbatim>\<open>mutex_\<close>, a
  plain (non-recursive) \<^verbatim>\<open>std::mutex\<close>.
\<close>

record 'idx manager =
  config :: index_config
  index :: 'idx
  documents :: "(string, json) fmap"
  stats :: index_stats
  last_save :: int
  mutex_locked :: bool

section \<open>The index manager's operations\<close>

text \<open>
  \<^verbatim>\<open>std::lock_guard<std::mutex> lock(mutex_)\<close>. Every call of the model runs on one
  thread, so a mutex found locked is locked by the caller itself: the standard leaves
  that undefined, and implementations block forever or throw \<^verbatim>\<open>std::system_error\<close>.
  Either way the call does not return normally, which is the value \<open>None\<close>.
\<close>

definition lock :: "'idx manager \<Rightarrow> 'idx manager option" where
  "lock m = (if mutex_locked m then None else Some (m\<lparr>mutex_locked := True\<rparr>))"

definition unlock :: "'idx manager \<Rightarrow> 'idx manager" where
  "unlock m = m\<lparr>mutex_locked := False\<rparr>"

text \<open>A fresh index for the current configuration, as the constructor builds it.\<close>

definition fresh_index :: "('idx, 'snap) hnsw \<Rightarrow> index_config \<Rightarrow> 'idx" where
  "fresh_index H c =
     hnsw_set_ef_search H (ef_search c)
       (hnsw_create H (embedding_dim c) (max_elements c) (cfg_M c) (ef_construction c))"

text \<open>\<^verbatim>\<open>IndexStats{}\<close>: zero counters, \<open>last_update\<close> at the epoch, \<open>created_at\<close> now.\<close>

definition new_stats :: "'snap world \<Rightarrow> index_stats" where
  "new_stats w =
     \<lparr>total_documents = 0, total_vectors = 0, index_size_bytes = 0,
      last_update = 0, created_at = system_now w\<rparr>"

definition update_stats ::
  "('idx, 'snap) hnsw \<Rightarrow> 'snap world \<Rightarrow> 'idx manager \<Rightarrow> 'idx manager" where
  "update_stats H w m =
     (let n = hnsw_size H (index m) in
      m\<lparr>stats := (stats m)\<lparr>
           total_documents := fcard (fmdom (documents m)),
           total_vectors := n,
           last_update := system_now w,
           index_size_bytes := (n * embedding_dim (config m) * 4) mod 2 ^ 64\<rparr>\<rparr>)"

definition should_auto_save :: "'snap world \<Rightarrow> 'idx manager \<Rightarrow> bool" where
  "should_auto_save w m =
     (if \<not> auto_save (config m) \<or> index_path (config m) = [] then False
      else save_interval (config m) \<le> to_seconds (steady_now w - last_save m))"

text \<open>
  \<^verbatim>\<open>create_metadata\<close>: a copy of the user's metadata with four keys assigned. The
  first assignment throws when the user's metadata is neither null nor an object.
\<close>

definition create_metadata :: "'snap world \<Rightarrow> string \<Rightarrow> string \<Rightarrow> json \<Rightarrow> string + json" where
  "create_metadata w doc_id content user_metadata =
     (case json_set ''doc_id'' (JString doc_id) user_metadata of
        Inl e \<Rightarrow> Inl e
      | Inr j1 \<Rightarrow>
         (case json_set ''content'' (JString content) j1 of
            Inl e \<Rightarrow> Inl e
          | Inr j2 \<Rightarrow>
             (case json_set ''content_length'' (JUnsigned (length content)) j2 of
                Inl e \<Rightarrow> Inl e
              | Inr j3 \<Rightarrow>
                  json_set ''indexed_at'' (JInt (to_seconds (system_now w))) j3)))"

text \<open>
  \<^verbatim>\<open>save_unlocked\<close>. Each early \<^verbatim>\<open>return false\<close> and the \<^verbatim>\<open>catch\<close> are a
  branch: an empty path, \<^verbatim>\<open>create_directories\<close> throwing, the index refusing to
  save, the metadata stream not opening, \<^verbatim>\<open>dump\<close> throwing. The loop copies
  \<^verbatim>\<open>documents_\<close> into a JSON value that starts null (an \<^verbatim>\<open>unordered_map\<close>
  iterates in no specified order; the copy does not depend on it, and the model takes
  key order). When \<^verbatim>\<open>dump\<close> throws, the stream has been opened already: the
  metadata file is left empty, beside the index file the index has written. Otherwise
  the file holds the text of the dump, stored as the value it parses to.
\<close>

definition documents_json :: "(string, json) fmap \<Rightarrow> string + json" where
  "documents_json docs =
     fold (\<lambda>(doc_id, metadata) r.
             case r of Inl e \<Rightarrow> Inl e | Inr j \<Rightarrow> json_set doc_id metadata j)
          (sorted_list_of_fmap docs) (Inr JNull)"

definition save_unlocked ::
  "('idx, 'snap) hnsw \<Rightarrow> 'snap world \<Rightarrow> 'idx manager \<Rightarrow> bool \<times> 'idx manager \<times> 'snap world" where
  "save_unlocked H w m =
     (let path = index_path (config m) in
      if path = [] then (False, m, w)
      else if \<not> create_directories w (parent_path path) then (False, m, w)
      else
        (case hnsw_save H path (index m) w of
           (False, w1) \<Rightarrow> (False, m, w1)
         | (True, w1) \<Rightarrow>
            (case documents_json (documents m) of
               Inl e \<Rightarrow> (False, m, w1)
             | Inr metadata_json \<Rightarrow>
                (let metadata_path = path @ ''.metadata.json'' in
                 if \<not> write_ok w1 metadata_path then (False, m, w1)
                 else if \<not> json_dumpable metadata_json
                 then (False, m, w1\<lparr>files := (files w1)(metadata_path \<mapsto> Opaque)\<rparr>)
                 else (True, m\<lparr>last_save := steady_now w\<rparr>,
                       w1\<lparr>files := (files w1)
                            (metadata_path \<mapsto> JsonDoc (json_reparse metadata_json))\<rparr>)))))"

definition save ::
  "('idx, 'snap) hnsw \<Rightarrow> 'snap world \<Rightarrow> 'idx manager \<Rightarrow> (bool \<times> 'idx manager \<times> 'snap world) option" where
  "save H w m =
     (case lock m of
        None \<Rightarrow> None
      | Some m1 \<Rightarrow>
         (case save_unlocked H w m1 of (ok, m2, w2) \<Rightarrow> Some (ok, unlock m2, w2)))"

text \<open>
  \<^verbatim>\<open>load_unlocked\<close>. The index is loaded first, so a later failure leaves the loaded
  index in place. A status that cannot be read and a metadata file that does not parse
  throw, which the \<^verbatim>\<open>catch\<close> turns into false.
\<close>

definition load_unlocked ::
  "('idx, 'snap) hnsw \<Rightarrow> 'snap world \<Rightarrow> 'idx manager \<Rightarrow> bool \<times> 'idx manager" where
  "load_unlocked H w m =
     (let path = index_path (config m) in
      if path = [] then (False, m)
      else
        (case hnsw_load H path w (index m) of
           (False, idx) \<Rightarrow> (False, m\<lparr>index := idx\<rparr>)
         | (True, idx) \<Rightarrow>
            (let m1 = m\<lparr>index := idx\<rparr>; metadata_path = path @ ''.metadata.json'' in
             case fs_exists w metadata_path of
               Inl e \<Rightarrow> (False, m1)
             | Inr False \<Rightarrow> (False, m1)
             | Inr True \<Rightarrow>
                 if \<not> read_ok w metadata_path then (False, m1)
                 else
                   (case files w metadata_path of
                      Some (JsonDoc metadata_json) \<Rightarrow>
                        (True, update_stats H w
                           (m1\<lparr>documents :=
                                 fold (\<lambda>(doc_id, metadata) d. fmupd doc_id metadata d)
                                      (json_items metadata_json) fmempty\<rparr>))
                    | _ \<Rightarrow> (False, m1)))))"

definition load ::
  "('idx, 'snap) hnsw \<Rightarrow> 'snap world \<Rightarrow> 'idx manager \<Rightarrow> (bool \<times> 'idx manager) option" where
  "load H w m =
     (case lock m of
        None \<Rightarrow> None
      | Some m1 \<Rightarrow> (case load_unlocked H w m1 of (ok, m2) \<Rightarrow> Some (ok, unlock m2)))"

text \<open>
  The constructor: a fresh index, then \<^verbatim>\<open>load()\<close> when the configured path is not
  empty and exists. The existence test is outside any \<^verbatim>\<open>try\<close>, so its exception
  leaves the constructor (\<open>Inl\<close>).
\<close>

definition IndexManager ::
  "('idx, 'snap) hnsw \<Rightarrow> 'snap world \<Rightarrow> index_config \<Rightarrow> string + 'idx manager" where
  "IndexManager H w c =
     (let m = \<lparr>config = c, index = fresh_index H c, documents = fmempty,
               stats = new_stats w, last_save = steady_now w, mutex_locked = False\<rparr>
      in if index_path c = [] then Inr m
         else
           (case fs_exists w (index_path c) of
              Inl e \<Rightarrow> Inl e
            | Inr False \<Rightarrow> Inr m
            | Inr True \<Rightarrow> (case load H w m of Some (ok, m1) \<Rightarrow> Inr m1 | None \<Rightarrow> Inr m)))"

text \<open>
  \<^verbatim>\<open>add_document\<close>. The result is \<open>None\<close> when the call does not return, \<open>Inl\<close> of
  the message when it leaves by an exception (the guard releases the mutex), \<open>Inr\<close> of
  the returned flag otherwise. The auto-save calls the public \<^verbatim>\<open>save()\<close>, which
  takes the mutex again.
\<close>

definition add_document ::
  "('idx, 'snap) hnsw \<Rightarrow> 'snap world \<Rightarrow> 'idx manager \<Rightarrow> string \<Rightarrow> float list \<Rightarrow> string \<Rightarrow> json
     \<Rightarrow> ((string + bool) \<times> 'idx manager \<times> 'snap world) option" where
  "add_document H w m doc_id embedding content metadata =
     (case lock m of
        None \<Rightarrow> None
      | Some m1 \<Rightarrow>
         (case create_metadata w doc_id content metadata of
            Inl e \<Rightarrow> Some (Inl e, unlock m1, w)
          | Inr full_metadata \<Rightarrow>
             (case hnsw_add_document H doc_id embedding content full_metadata (index m1) of
                (Raised e, idx) \<Rightarrow> Some (Inl e, unlock (m1\<lparr>index := idx\<rparr>), w)
              | (Refused, idx) \<Rightarrow> Some (Inr False, unlock (m1\<lparr>index := idx\<rparr>), w)
              | (Accepted, idx) \<Rightarrow>
                 (let m2 = update_stats H w
                             (m1\<lparr>index := idx,
                                 documents := fmupd doc_id full_metadata (documents m1)\<rparr>)
                  in if should_auto_save w m2
                     then (case save H w m2 of
                             None \<Rightarrow> None
                           | Some (ok, m3, w3) \<Rightarrow> Some (Inr True, unlock m3, w3))
                     else Some (Inr True, unlock m2, w)))))"

text \<open>
  One round of the loop of \<^verbatim>\<open>add_batch\<close>, for index \<open>i\<close>: the \<^verbatim>\<open>try\<close> block with
  its \<^verbatim>\<open>catch\<close>. The sizes have been checked before the loop, so every read is in range.
\<close>

definition add_batch_step ::
  "('idx, 'snap) hnsw \<Rightarrow> 'snap world \<Rightarrow> string list \<Rightarrow> float list list \<Rightarrow> string list \<Rightarrow> json list
     \<Rightarrow> nat \<Rightarrow> batch_result \<times> 'idx manager \<Rightarrow> batch_result \<times> 'idx manager" where
  "add_batch_step H w doc_ids embeddings contents metadatas i = (\<lambda>(result, m).
     (let metadata = (if metadatas \<noteq> [] then metadatas ! i else JNull) in
      case create_metadata w (doc_ids ! i) (contents ! i) metadata of
        Inl e \<Rightarrow>
          (result\<lparr>failed := failed result + 1,
                  error_messages := error_messages result
                    @ [''Exception for '' @ doc_ids ! i @ '': '' @ e]\<rparr>, m)
      | Inr full_metadata \<Rightarrow>
         (case hnsw_add_document H (doc_ids ! i) (embeddings ! i) (contents ! i)
                 full_metadata (index m) of
            (Accepted, idx) \<Rightarrow>
              (result\<lparr>successful := successful result + 1\<rparr>,
               m\<lparr>index := idx,
                  documents := fmupd (doc_ids ! i) full_metadata (documents m)\<rparr>)
          | (Refused, idx) \<Rightarrow>
              (result\<lparr>failed := failed result + 1,
                      error_messages := error_messages result
                        @ [''Failed to add document: '' @ doc_ids ! i]\<rparr>,
               m\<lparr>index := idx\<rparr>)
          | (Raised e, idx) \<Rightarrow>
              (result\<lparr>failed := failed result + 1,
                      error_messages := error_messages result
                        @ [''Exception for '' @ doc_ids ! i @ '': '' @ e]\<rparr>,
               m\<lparr>index := idx\<rparr>))))"

text \<open>
  \<^verbatim>\<open>add_batch\<close>: the two size checks come before the mutex is taken; then the loop
  over \<open>0 .. size - 1\<close>, the statistics and the auto-save.
\<close>

definition add_batch ::
  "('idx, 'snap) hnsw \<Rightarrow> 'snap world \<Rightarrow> 'idx manager \<Rightarrow> string list \<Rightarrow> float list list \<Rightarrow> string list
     \<Rightarrow> json list \<Rightarrow> (batch_result \<times> 'idx manager \<times> 'snap world) option" where
  "add_batch H w m doc_ids embeddings contents metadatas =
     (let result = \<lparr>total = length doc_ids, successful = 0, failed = 0, error_messages = []\<rparr> in
      if length doc_ids \<noteq> length embeddings \<or> length doc_ids \<noteq> length contents
      then Some (result\<lparr>error_messages := error_messages result @ [''Input size mismatch'']\<rparr>, m, w)
      else if metadatas \<noteq> [] \<and> length metadatas \<noteq> length doc_ids
      then Some (result\<lparr>error_messages := error_messages result @ [''Metadata size mismatch'']\<rparr>, m, w)
      else
        (case lock m of
           None \<Rightarrow> None
         | Some m1 \<Rightarrow>
            (case fold (add_batch_step H w doc_ids embeddings contents metadatas)
                       [0..<length doc_ids] (result, m1) of
               (result1, m2) \<Rightarrow>
                 (let m3 = update_stats H w m2 in
                  if should_auto_save w m3
                  then (case save H w m3 of
                          None \<Rightarrow> None
                        | Some (ok, m4, w4) \<Rightarrow> Some (result1, unlock m4, w4))
                  else Some (result1, unlock m3, w)))))"

text \<open>
  \<^verbatim>\<open>search\<close>: the index's answer, and for a threshold above 0 \<^verbatim>\<open>remove_if\<close> of
  the results for which \<^verbatim>\<open>similarity < threshold\<close> is true. The manager is left as
  it was.
\<close>

definition search ::
  "('idx, 'snap) hnsw \<Rightarrow> 'idx manager \<Rightarrow> float list \<Rightarrow> nat \<Rightarrow> float \<Rightarrow> search_result list option" where
  "search H m query_embedding top_k similarity_threshold =
     (case lock m of
        None \<Rightarrow> None
      | Some m1 \<Rightarrow>
         (let results = hnsw_search H query_embedding top_k (index m1) in
          Some (if float_less (Finite 0) similarity_threshold
                then filter (\<lambda>r. \<not> float_less (sr_similarity r) similarity_threshold) results
                else results)))"

definition search_batch ::
  "('idx, 'snap) hnsw \<Rightarrow> 'idx manager \<Rightarrow> float list list \<Rightarrow> nat \<Rightarrow> search_result list list option" where
  "search_batch H m query_embeddings top_k =
     fold (\<lambda>query acc.
             case acc of
               None \<Rightarrow> None
             | Some results \<Rightarrow>
                (case search H m query top_k (Finite 0) of
                   None \<Rightarrow> None
                 | Some r \<Rightarrow> Some (results @ [r])))
          query_embeddings (Some [])"

text \<open>
  \<^verbatim>\<open>delete_document\<close>: the metadata entry is erased; the index is not called.
\<close>

definition delete_document ::
  "('idx, 'snap) hnsw \<Rightarrow> 'snap world \<Rightarrow> 'idx manager \<Rightarrow> string
     \<Rightarrow> (bool \<times> 'idx manager \<times> 'snap world) option" where
  "delete_document H w m doc_id =
     (case lock m of
        None \<Rightarrow> None
      | Some m1 \<Rightarrow>
         (if fmlookup (documents m1) doc_id = None then Some (False, unlock m1, w)
          else
            (let m2 = update_stats H w (m1\<lparr>documents := fmdrop doc_id (documents m1)\<rparr>)
             in if should_auto_save w m2
                then (case save H w m2 of
                        None \<Rightarrow> None
                      | Some (ok, m3, w3) \<Rightarrow> Some (True, unlock m3, w3))
                else Some (True, unlock m2, w))))"

text \<open>
  \<^verbatim>\<open>update_document\<close>: \<^verbatim>\<open>delete_document\<close>, its result dropped, then
  \<^verbatim>\<open>add_document\<close>, whose result is returned.
\<close>

definition update_document ::
  "('idx, 'snap) hnsw \<Rightarrow> 'snap world \<Rightarrow> 'idx manager \<Rightarrow> string \<Rightarrow> float list \<Rightarrow> string \<Rightarrow> json
     \<Rightarrow> ((string + bool) \<times> 'idx manager \<times> 'snap world) option" where
  "update_document H w m doc_id embedding content metadata =
     (case delete_document H w m doc_id of
        None \<Rightarrow> None
      | Some (deleted, m1, w1) \<Rightarrow> add_document H w1 m1 doc_id embedding content metadata)"

definition get_document :: "'idx manager \<Rightarrow> string \<Rightarrow> json option" where
  "get_document m doc_id =
     (case lock m of
        None \<Rightarrow> None
      | Some m1 \<Rightarrow>
         (case fmlookup (documents m1) doc_id of
            Some metadata \<Rightarrow> Some metadata
          | None \<Rightarrow> Some JNull))"

definition has_document :: "'idx manager \<Rightarrow> string \<Rightarrow> bool option" where
  "has_document m doc_id =
     (case lock m of
        None \<Rightarrow> None
      | Some m1 \<Rightarrow> Some (fmlookup (documents m1) doc_id \<noteq> None))"

definition document_count :: "'idx manager \<Rightarrow> nat option" where
  "document_count m =
     (case lock m of
        None \<Rightarrow> None
      | Some m1 \<Rightarrow> Some (fcard (fmdom (documents m1))))"

text \<open>
  \<^verbatim>\<open>load_from\<close>. The existence test is outside any \<^verbatim>\<open>try\<close>: its exception
  leaves the call (\<open>Inl\<close>), the guard releasing the mutex. For a path that exists, the
  current documents, index and statistics are swapped out for empty ones, the path is
  set and \<^verbatim>\<open>load_unlocked\<close> runs; when it fails everything is swapped back and the
  old path restored.
\<close>

definition load_from ::
  "('idx, 'snap) hnsw \<Rightarrow> 'snap world \<Rightarrow> 'idx manager \<Rightarrow> string \<Rightarrow> bool
     \<Rightarrow> ((string + bool) \<times> 'idx manager) option" where
  "load_from H w m path update_default =
     (case lock m of
        None \<Rightarrow> None
      | Some m1 \<Rightarrow>
         (if path = [] then Some (Inr False, unlock m1)
          else
            (case fs_exists w path of
               Inl e \<Rightarrow> Some (Inl e, unlock m1)
             | Inr False \<Rightarrow>
                (if \<not> update_default then Some (Inr False, unlock m1)
                 else
                   (let c = (config m1)\<lparr>index_path := path\<rparr> in
                    Some (Inr True,
                      unlock (m1\<lparr>config := c, documents := fmempty,
                                  index := fresh_index H c, stats := new_stats w\<rparr>))))
             | Inr True \<Rightarrow>
                (let old_path = index_path (config m1);
                     old_documents = documents m1;
                     old_index = index m1;
                     old_stats = stats m1;
                     m2 = m1\<lparr>documents := fmempty, index := fresh_index H (config m1),
                              stats := new_stats w\<rparr>;
                     m3 = m2\<lparr>config := (config m2)\<lparr>index_path := path\<rparr>\<rparr>
                 in case load_unlocked H w m3 of
                      (False, m4) \<Rightarrow>
                        Some (Inr False,
                          unlock (m4\<lparr>documents := old_documents, index := old_index,
                                      stats := old_stats,
                                      config := (config m4)\<lparr>index_path := old_path\<rparr>\<rparr>))
                    | (True, m4) \<Rightarrow>
                        Some (Inr True,
                          unlock (if \<not> update_default
                                  then m4\<lparr>config := (config m4)\<lparr>index_path := old_path\<rparr>\<rparr>
                                  else m4))))))"

definition set_index_path :: "'idx manager \<Rightarrow> string \<Rightarrow> 'idx manager option" where
  "set_index_path m path =
     (case lock m of
        None \<Rightarrow> None
      | Some m1 \<Rightarrow> Some (unlock (m1\<lparr>config := (config m1)\<lparr>index_path := path\<rparr>\<rparr>)))"

definition get_stats :: "'idx manager \<Rightarrow> index_stats option" where
  "get_stats m =
     (case lock m of
        None \<Rightarrow> None
      | Some m1 \<Rightarrow> Some (stats m1))"

definition set_ef_search ::
  "('idx, 'snap) hnsw \<Rightarrow> 'idx manager \<Rightarrow> nat \<Rightarrow> 'idx manager option" where
  "set_ef_search H m ef =
     (case lock m of
        None \<Rightarrow> None
      | Some m1 \<Rightarrow>
         Some (unlock (m1\<lparr>config := (config m1)\<lparr>ef_search := ef\<rparr>,
                          index := hnsw_set_ef_search H ef (index m1)\<rparr>)))"



text \<open>
  The items of a batch as \<^verbatim>\<open>add_batch\<close> reads them (item \<open>i\<close> takes
  \<^verbatim>\<open>metadatas[i]\<close>, or the null value when \<open>metadatas\<close> is empty), and the same
  items given to \<^verbatim>\<open>add_document\<close> one call after the other, whatever each call
  answers: the answers in order and the manager after the last call.
\<close>

definition batch_items ::
  "string list \<Rightarrow> float list list \<Rightarrow> string list \<Rightarrow> json list
     \<Rightarrow> (string \<times> float list \<times> string \<times> json) list" where
  "batch_items doc_ids embeddings contents metadatas =
     map (\<lambda>i. (doc_ids ! i, embeddings ! i, contents ! i,
               if metadatas \<noteq> [] then metadatas ! i else JNull))
         [0..<length doc_ids]"

fun add_each ::
  "('idx, 'snap) hnsw \<Rightarrow> 'snap world \<Rightarrow> 'idx manager
     \<Rightarrow> (string \<times> float list \<times> string \<times> json) list
     \<Rightarrow> ((string + bool) list \<times> 'idx manager \<times> 'snap world) option" where
  "add_each H w m [] = Some ([], m, w)"
| "add_each H w m ((doc_id, embedding, content, metadata) # items) =
     (case add_document H w m doc_id embedding content metadata of
        None \<Rightarrow> None
      | Some (x, m1, w1) \<Rightarrow>
         (case add_each H w1 m1 items of
            None \<Rightarrow> None
          | Some (xs, m2, w2) \<Rightarrow> Some (x # xs, m2, w2)))"

text \<open>
  The error message \<^verbatim>\<open>add_batch\<close> records for an item, by what inserting it
  answered: none when it was inserted, one when the index refused it, one with the
  exception's text when the insertion raised.
\<close>

definition item_message :: "string \<Rightarrow> string + bool \<Rightarrow> string list" where
  "item_message doc_id x =
     (case x of
        Inr True \<Rightarrow> []
      | Inr False \<Rightarrow> [''Failed to add document: '' @ doc_id]
      | Inl e \<Rightarrow> [''Exception for '' @ doc_id @ '': '' @ e])"

section \<open>A reference index\<close>

text \<open>
  Modelled from the spec: the class \<^verbatim>\<open>vector_search::HNSWIndex\<close>, whose header and
  implementation are missing from the sources. The spec (section 4.A) gives its
  contract: an insert fails on a dimension mismatch, on an identifier already present
  and at capacity, before any mutation; a search returns at most \<open>k\<close> results by
  decreasing similarity, the lower internal id first among equals, and nothing for a
  query of the wrong dimension; a snapshot that is loaded answers every query as the
  index that was saved, and loading rejects a snapshot of another dimension. The model
  is the exact nearest-neighbour store with that contract: the nodes in insertion order
  (the position is the internal id), inner-product similarity reported as
  \<open>(1 + dot) / 2\<close> on the embeddings as given.
\<close>

record doc_node =
  nd_doc_id :: string
  nd_embedding :: "float list"
  nd_content :: string
  nd_metadata :: json

record exact_index =
  ix_dim :: nat
  ix_max_elements :: nat
  ix_M :: nat
  ix_ef_construction :: nat
  ix_ef_search :: nat
  ix_nodes :: "doc_node list"

definition dot :: "float list \<Rightarrow> float list \<Rightarrow> float" where
  "dot a b = foldl float_add (Finite 0) (map2 float_mul a b)"

definition similarity :: "float list \<Rightarrow> float list \<Rightarrow> float" where
  "similarity a b = float_mul (Finite (1 / 2)) (float_add (Finite 1) (dot a b))"

text \<open>
  Modelled from the spec: the constructor and \<^verbatim>\<open>set_ef_search\<close> of the missing
  class; \<open>ef_search\<close> starts at the spec's default 50.
\<close>

definition exact_create :: "nat \<Rightarrow> nat \<Rightarrow> nat \<Rightarrow> nat \<Rightarrow> exact_index" where
  "exact_create d n m efc =
     \<lparr>ix_dim = d, ix_max_elements = n, ix_M = m, ix_ef_construction = efc,
      ix_ef_search = 50, ix_nodes = []\<rparr>"

definition exact_set_ef_search :: "nat \<Rightarrow> exact_index \<Rightarrow> exact_index" where
  "exact_set_ef_search ef ix = ix\<lparr>ix_ef_search := ef\<rparr>"

text \<open>
  Modelled from the spec: \<^verbatim>\<open>add_document\<close> of the missing class. "Dimension
  mismatch, duplicate id, and capacity exhaustion (size at least \<open>max_elements\<close>) fail
  deterministically before mutation."
\<close>

definition exact_add_document ::
  "string \<Rightarrow> float list \<Rightarrow> string \<Rightarrow> json \<Rightarrow> exact_index \<Rightarrow> add_outcome \<times> exact_index" where
  "exact_add_document doc_id embedding content metadata ix =
     (if length embedding \<noteq> ix_dim ix then (Refused, ix)
      else if doc_id \<in> set (map nd_doc_id (ix_nodes ix)) then (Refused, ix)
      else if ix_max_elements ix \<le> length (ix_nodes ix) then (Refused, ix)
      else (Accepted,
            ix\<lparr>ix_nodes := ix_nodes ix
                  @ [\<lparr>nd_doc_id = doc_id, nd_embedding = embedding,
                       nd_content = content, nd_metadata = metadata\<rparr>]\<rparr>))"

text \<open>
  Modelled from the spec: \<^verbatim>\<open>search\<close> of the missing class. At most \<open>k\<close> results,
  by decreasing similarity; a node is placed before the first one whose similarity is
  smaller than its own, so among equals the lower internal id comes first. Nothing for
  a query of another dimension or on an empty index.
\<close>

fun insert_ranked :: "float list \<Rightarrow> doc_node \<Rightarrow> doc_node list \<Rightarrow> doc_node list" where
  "insert_ranked query n [] = [n]"
| "insert_ranked query n (x # xs) =
     (if float_less (similarity query (nd_embedding x)) (similarity query (nd_embedding n))
      then n # x # xs
      else x # insert_ranked query n xs)"

definition exact_search :: "float list \<Rightarrow> nat \<Rightarrow> exact_index \<Rightarrow> search_result list" where
  "exact_search query k ix =
     (if length query \<noteq> ix_dim ix then []
      else take k
             (map (\<lambda>n. \<lparr>sr_doc_id = nd_doc_id n,
                         sr_similarity = similarity query (nd_embedding n),
                         sr_content = nd_content n, sr_metadata = nd_metadata n\<rparr>)
                  (foldl (\<lambda>ranked n. insert_ranked query n ranked) [] (ix_nodes ix))))"

definition exact_size :: "exact_index \<Rightarrow> nat" where
  "exact_size ix = length (ix_nodes ix)"

text \<open>
  Modelled from the spec: \<^verbatim>\<open>save\<close> and \<^verbatim>\<open>load\<close> of the missing class. The
  snapshot file holds the index; loading takes the graph parameters and the nodes from
  it and rejects anything that is not a snapshot of the index's own dimension.
\<close>

definition exact_save ::
  "string \<Rightarrow> exact_index \<Rightarrow> exact_index world \<Rightarrow> bool \<times> exact_index world" where
  "exact_save path ix w =
     (if write_ok w path then (True, w\<lparr>files := (files w)(path \<mapsto> IndexData ix)\<rparr>)
      else (False, w))"

definition exact_load ::
  "string \<Rightarrow> exact_index world \<Rightarrow> exact_index \<Rightarrow> bool \<times> exact_index" where
  "exact_load path w ix =
     (case files w path of
        Some (IndexData snapshot) \<Rightarrow>
          (if read_ok w path \<and> ix_dim snapshot = ix_dim ix
           then (True, ix\<lparr>ix_M := ix_M snapshot,
                          ix_ef_construction := ix_ef_construction snapshot,
                          ix_nodes := ix_nodes snapshot\<rparr>)
           else (False, ix))
      | _ \<Rightarrow> (False, ix))"

text \<open>Modelled from the spec: the missing class as one implementation of the interface.\<close>

definition exact_hnsw :: "(exact_index, exact_index) hnsw" where
  "exact_hnsw =
     \<lparr>hnsw_create = exact_create, hnsw_set_ef_search = exact_set_ef_search,
      hnsw_add_document = exact_add_document, hnsw_search = exact_search,
      hnsw_size = exact_size, hnsw_save = exact_save, hnsw_load = exact_load\<rparr>"

section \<open>Concrete runs\<close>

text \<open>
  A small configuration (dimension 2, no persistence path, as \<^verbatim>\<open>IndexConfig\<close>
  defaults to), the same with a snapshot path, and a world with no files in which all
  I/O succeeds.
\<close>

definition demo_config :: index_config where
  "demo_config =
     \<lparr>embedding_dim = 2, max_elements = 100, cfg_M = 16, ef_construction = 200,
      ef_search = 50, space_type = ''ip'', index_path = [], auto_save = True,
      save_interval = 300, batch_size = 100, num_threads = 4\<rparr>"

definition disk_config :: index_config where
  "disk_config = demo_config\<lparr>index_path := ''data/idx''\<rparr>"

definition demo_world :: "exact_index world" where
  "demo_world =
     \<lparr>files = Map.empty, stat_error = (\<lambda>p. False), mkdir_ok = (\<lambda>p. True),
      write_ok = (\<lambda>p. True), read_ok = (\<lambda>p. True), steady_now = 0, system_now = 0\<rparr>"

text \<open>The manager a constructor built, and the manager and the world a call returned.\<close>

definition constructed :: "string + 'idx manager \<Rightarrow> 'idx manager" where
  "constructed r = (case r of Inr m \<Rightarrow> m)"

definition manager_of :: "('r \<times> 'idx manager \<times> 'w) option \<Rightarrow> 'idx manager" where
  "manager_of r = (case r of Some (x, m, w) \<Rightarrow> m)"

definition world_of :: "('r \<times> 'm \<times> 'w) option \<Rightarrow> 'w" where
  "world_of r = (case r of Some (x, m, w) \<Rightarrow> w)"

definition loaded_manager :: "('r \<times> 'idx manager) option \<Rightarrow> 'idx manager" where
  "loaded_manager r = (case r of Some (x, m) \<Rightarrow> m)"

text \<open>An empty manager; one document \<open>a\<close>; then \<open>a\<close> deleted; \<open>a\<close> and \<open>c\<close>.\<close>

definition demo_empty :: "exact_index manager" where
  "demo_empty = constructed (IndexManager exact_hnsw demo_world demo_config)"

definition demo_one :: "exact_index manager" where
  "demo_one =
     manager_of
       (add_document exact_hnsw demo_world demo_empty ''a'' [Finite 1, Finite 0] ''alpha'' JNull)"

definition demo_deleted :: "exact_index manager" where
  "demo_deleted = manager_of (delete_document exact_hnsw demo_world demo_one ''a'')"

definition demo_two :: "exact_index manager" where
  "demo_two =
     manager_of
       (add_document exact_hnsw demo_world demo_one ''c'' [Finite 0, Finite 1] ''gamma'' JNull)"

text \<open>A world whose only file, at \<open>junk\<close>, is no snapshot.\<close>

definition junk_world :: "exact_index world" where
  "junk_world = demo_world\<lparr>files := [''junk'' \<mapsto> Opaque]\<rparr>"

text \<open>A world that refuses the status of every path of more than 255 bytes.\<close>

definition strict_world :: "exact_index world" where
  "strict_world = demo_world\<lparr>stat_error := (\<lambda>p. 255 < length p)\<rparr>"

text \<open>
  With a snapshot path: the empty manager, the world five minutes later, the manager
  holding \<open>a\<close>, and the run save, clear, load from there.
\<close>

definition disk_empty :: "exact_index manager" where
  "disk_empty = constructed (IndexManager exact_hnsw demo_world disk_config)"

definition late_world :: "exact_index world" where
  "late_world = demo_world\<lparr>steady_now := 300000000000\<rparr>"

definition disk_one :: "exact_index manager" where
  "disk_one =
     manager_of
       (add_document exact_hnsw demo_world disk_empty ''a'' [Finite 1, Finite 0] ''alpha'' JNull)"







section \<open>The mutex\<close>

lemma lock_free: "\<not> mutex_locked m \<Longrightarrow> lock m = Some (m\<lparr>mutex_locked := True\<rparr>)"
  by (simp add: lock_def)

lemma lock_held: "mutex_locked m \<Longrightarrow> lock m = None"
  by (simp add: lock_def)

lemma unlock_locked: "\<not> mutex_locked m \<Longrightarrow> unlock (m\<lparr>mutex_locked := True\<rparr>) = m"
  by (simp add: unlock_def)

text \<open>A call of \<^verbatim>\<open>save()\<close> made while the mutex is held does not return.\<close>

lemma save_when_locked: "mutex_locked m \<Longrightarrow> save H w m = None"
  by (simp add: save_def lock_def)

lemma update_stats_fields [simp]:
  "mutex_locked (update_stats H w m) = mutex_locked m"
  "config (update_stats H w m) = config m"
  "index (update_stats H w m) = index m"
  "documents (update_stats H w m) = documents m"
  "last_save (update_stats H w m) = last_save m"
  by (simp_all add: update_stats_def Let_def)

lemma update_stats_unlock: "unlock (update_stats H w m) = update_stats H w (unlock m)"
  by (simp add: update_stats_def unlock_def Let_def)

lemma should_auto_save_cong:
  "config m' = config m \<Longrightarrow> last_save m' = last_save m \<Longrightarrow>
   should_auto_save w m' = should_auto_save w m"
  by (simp add: should_auto_save_def)

lemma search_cong:
  "index m' = index m \<Longrightarrow> mutex_locked m' = mutex_locked m \<Longrightarrow>
   search H m' q k t = search H m q k t"
  by (simp add: search_def lock_def)

section \<open>What the calls do when the mutex is free\<close>

lemma delete_document_free:
  assumes "\<not> mutex_locked m"
  shows "delete_document H w m doc_id =
     (if fmlookup (documents m) doc_id = None then Some (False, m, w)
      else if should_auto_save w m then None
      else Some (True, update_stats H w (m\<lparr>documents := fmdrop doc_id (documents m)\<rparr>), w))"
proof -
  let ?m1 = "m\<lparr>mutex_locked := True\<rparr>"
  let ?m2 = "update_stats H w (?m1\<lparr>documents := fmdrop doc_id (documents ?m1)\<rparr>)"
  have s: "should_auto_save w ?m2 = should_auto_save w m"
    by (rule should_auto_save_cong) simp_all
  have n: "save H w ?m2 = None" by (rule save_when_locked) simp
  have u: "unlock ?m2 = update_stats H w (m\<lparr>documents := fmdrop doc_id (documents m)\<rparr>)"
    unfolding update_stats_unlock using assms by (cases m) (simp add: unlock_def)
  have u1: "unlock ?m1 = m" using assms by (rule unlock_locked)
  show ?thesis
    unfolding delete_document_def lock_free[OF assms] option.case Let_def s n u u1
    by simp
qed

lemma add_document_free:
  assumes "\<not> mutex_locked m"
  shows "add_document H w m doc_id embedding content metadata =
     (case create_metadata w doc_id content metadata of
        Inl e \<Rightarrow> Some (Inl e, m, w)
      | Inr full_metadata \<Rightarrow>
         (case hnsw_add_document H doc_id embedding content full_metadata (index m) of
            (Raised e, idx) \<Rightarrow> Some (Inl e, m\<lparr>index := idx\<rparr>, w)
          | (Refused, idx) \<Rightarrow> Some (Inr False, m\<lparr>index := idx\<rparr>, w)
          | (Accepted, idx) \<Rightarrow>
              if should_auto_save w m then None
              else Some (Inr True,
                     update_stats H w
                       (m\<lparr>index := idx,
                          documents := fmupd doc_id full_metadata (documents m)\<rparr>), w)))"
proof -
  let ?m1 = "m\<lparr>mutex_locked := True\<rparr>"
  have u1: "unlock ?m1 = m" using assms by (rule unlock_locked)
  have ui: "\<And>idx. unlock (?m1\<lparr>index := idx\<rparr>) = m\<lparr>index := idx\<rparr>"
    using assms by (cases m) (simp add: unlock_def)
  have s: "\<And>idx full. should_auto_save w
             (update_stats H w (?m1\<lparr>index := idx, documents := fmupd doc_id full (documents ?m1)\<rparr>))
           = should_auto_save w m"
    by (rule should_auto_save_cong) simp_all
  have n: "\<And>idx full. save H w
             (update_stats H w (?m1\<lparr>index := idx, documents := fmupd doc_id full (documents ?m1)\<rparr>))
           = None"
    by (rule save_when_locked) simp
  have u: "\<And>idx full. unlock
             (update_stats H w (?m1\<lparr>index := idx, documents := fmupd doc_id full (documents ?m1)\<rparr>))
           = update_stats H w (m\<lparr>index := idx, documents := fmupd doc_id full (documents m)\<rparr>)"
    unfolding update_stats_unlock using assms by (cases m) (simp add: unlock_def)
  show ?thesis
    unfolding add_document_def lock_free[OF assms] option.case Let_def s n u u1 ui
    by (simp split: sum.splits prod.splits add_outcome.splits)
qed

lemma add_document_returns_free:
  "add_document H w m doc_id e c md = Some r \<Longrightarrow> \<not> mutex_locked m"
  by (cases "mutex_locked m") (simp_all add: add_document_def lock_held)

lemma delete_document_returns_free:
  "delete_document H w m doc_id = Some r \<Longrightarrow> \<not> mutex_locked m"
  by (cases "mutex_locked m") (simp_all add: delete_document_def lock_held)

text \<open>Reading a call's result back from its flag, for the concrete runs.\<close>

lemma returned_flag:
  "map_option fst r = Some x \<Longrightarrow> r = Some (x, manager_of r, world_of r)"
  by (cases r) (auto simp: manager_of_def world_of_def)

lemma loaded_flag:
  "map_option fst r = Some x \<Longrightarrow> r = Some (x, loaded_manager r)"
  by (cases r) (auto simp: loaded_manager_def)

section \<open>Facts of the concrete runs\<close>

lemma demo_one_free: "\<not> mutex_locked demo_one"
  by code_simp

lemma demo_one_count: "document_count demo_one = Some 1"
  by code_simp

lemma demo_world_missing: "fs_exists demo_world ''missing'' = Inr False"
  by code_simp

lemma junk_load_fails:
  "map_option fst (load_from exact_hnsw junk_world demo_one ''junk'' True) = Some (Inr False)"
  by code_simp

section \<open>Loading from a path\<close>

lemma load_unlocked_frame:
  assumes "load_unlocked H w m = (ok, m')"
  shows "config m' = config m" and "last_save m' = last_save m"
    and "mutex_locked m' = mutex_locked m"
  using assms
  by (auto simp: load_unlocked_def Let_def
           split: if_splits prod.splits bool.splits option.splits fnode.splits sum.splits)

text \<open>What \<^verbatim>\<open>load_from\<close> does before it touches anything.\<close>

lemma load_from_early:
  assumes "\<not> mutex_locked m"
  shows "path = [] \<Longrightarrow> load_from H w m path u = Some (Inr False, m)"
    and "path \<noteq> [] \<Longrightarrow> fs_exists w path = Inl e \<Longrightarrow> load_from H w m path u = Some (Inl e, m)"
    and "path \<noteq> [] \<Longrightarrow> fs_exists w path = Inr False \<Longrightarrow>
         load_from H w m path False = Some (Inr False, m)"
  using assms by (simp_all add: load_from_def lock_def unlock_def)

lemma load_from_missing_keep:
  assumes "\<not> mutex_locked m" and "files w path = None"
  shows "\<exists>r. load_from H w m path False = Some (r, m) \<and> r \<noteq> Inr True
             \<and> (\<not> stat_error w path \<longrightarrow> r = Inr False)"
proof (cases "path = []")
  case True
  have "load_from H w m path False = Some (Inr False, m)"
    using assms(1) True by (rule load_from_early(1))
  then show ?thesis by simp
next
  case False
  show ?thesis
  proof (cases "stat_error w path")
    case True
    then have "fs_exists w path = Inl (''filesystem error: cannot get file status: '' @ path)"
      by (simp add: fs_exists_def)
    have "load_from H w m path False
          = Some (Inl (''filesystem error: cannot get file status: '' @ path), m)"
      using assms(1) False \<open>fs_exists w path = Inl _\<close> by (rule load_from_early(2))
    then show ?thesis using True by simp
  next
    case no: False
    with assms(2) have "fs_exists w path = Inr False" by (simp add: fs_exists_def)
    have "load_from H w m path False = Some (Inr False, m)"
      using assms(1) False \<open>fs_exists w path = Inr False\<close> by (rule load_from_early(3))
    then show ?thesis by simp
  qed
qed

lemma load_from_failure_restores:
  assumes a: "load_from H w m path update_default = Some (r, m')" and nr: "r \<noteq> Inr True"
  shows "m' = m"
proof -
  from a have free: "\<not> mutex_locked m"
    by (cases "mutex_locked m") (simp_all add: load_from_def lock_held)
  define m1 where "m1 = m\<lparr>mutex_locked := True\<rparr>"
  have l: "lock m = Some m1" using free by (simp add: lock_def m1_def)
  have u: "unlock m1 = m" using free by (simp add: m1_def unlock_def)
  define m3 where "m3 = m1\<lparr>documents := fmempty, index := fresh_index H (config m1),
                        stats := new_stats w, config := (config m1)\<lparr>index_path := path\<rparr>\<rparr>"
  show ?thesis
  proof (cases "path = [] \<or> fs_exists w path \<noteq> Inr True")
    case True
    with a nr l u show ?thesis
      by (auto simp: load_from_def Let_def split: if_splits sum.splits bool.splits)
  next
    case False
    then have p: "path \<noteq> []" and ex: "fs_exists w path = Inr True" by simp_all
    obtain ok m4 where lu: "load_unlocked H w m3 = (ok, m4)"
      by (cases "load_unlocked H w m3")
    from load_unlocked_frame[OF lu]
    have fr: "config m4 = config m3" "last_save m4 = last_save m3"
      "mutex_locked m4 = mutex_locked m3" .
    from a nr l p ex lu have "ok = False"
      by (auto simp: load_from_def Let_def m3_def split: if_splits bool.splits)
    with a l p ex lu have
      "m' = unlock (m4\<lparr>documents := documents m1, index := index m1, stats := stats m1,
                         config := (config m4)\<lparr>index_path := index_path (config m1)\<rparr>\<rparr>)"
      by (auto simp: load_from_def Let_def m3_def split: if_splits bool.splits)
    then show ?thesis using fr free
      by (cases m4) (simp add: m3_def m1_def unlock_def)
  qed
qed

text \<open>
  Claim C2. \<^verbatim>\<open>load_from(path, false)\<close> on a path where no file exists fails and
  leaves the manager as it was: it returns false, or raises where the file system
  refuses the status of the path. And whenever \<^verbatim>\<open>load_from\<close> fails (returns false
  or raises), with either flag and also after it has swapped the state out and tried
  to load, the manager is the one before the call: the same documents, index,
  statistics and default path, hence the same \<^verbatim>\<open>document_count()\<close> and the same
  answer to every later search.
\<close>

theorem load_from_rollback:
  "(\<not> mutex_locked m \<and> files w path = None \<longrightarrow>
      (\<exists>r. load_from H w m path False = Some (r, m) \<and> r \<noteq> Inr True
            \<and> (\<not> stat_error w path \<longrightarrow> r = Inr False)))
   \<and> (load_from H w m path update_default = Some (r', m') \<and> r' \<noteq> Inr True \<longrightarrow>
        m' = m \<and> documents m' = documents m \<and> index m' = index m \<and> stats m' = stats m
        \<and> index_path (config m') = index_path (config m)
        \<and> document_count m' = document_count m
        \<and> (\<forall>q k t. search H m' q k t = search H m q k t))"
  using load_from_missing_keep [of m w path H]
        load_from_failure_restores [of H w m path update_default r' m']
  by blast

lemma strict_load_raises:
  "map_option fst (load_from exact_hnsw strict_world demo_one (replicate 256 (CHR ''a'')) True)
   = Some (Inl (''filesystem error: cannot get file status: '' @ replicate 256 (CHR ''a'')))"
  by code_simp

theorem load_from_rollback_witness:
  "load_from exact_hnsw demo_world demo_one ''missing'' False = Some (Inr False, demo_one)
   \<and> load_from exact_hnsw junk_world demo_one ''junk'' True = Some (Inr False, demo_one)
   \<and> files junk_world ''junk'' = Some Opaque
   \<and> load_from exact_hnsw strict_world demo_one (replicate 256 (CHR ''a'')) True
       = Some (Inl (''filesystem error: cannot get file status: '' @ replicate 256 (CHR ''a'')),
               demo_one)
   \<and> document_count demo_one = Some 1"
proof -
  have f: "files demo_world ''missing'' = None" "\<not> stat_error demo_world ''missing''"
    by code_simp+
  have 1: "load_from exact_hnsw demo_world demo_one ''missing'' False = Some (Inr False, demo_one)"
    using load_from_rollback [of demo_one demo_world "''missing''" exact_hnsw]
      demo_one_free f by blast
  have "load_from exact_hnsw junk_world demo_one ''junk'' True
        = Some (Inr False, loaded_manager (load_from exact_hnsw junk_world demo_one ''junk'' True))"
    using junk_load_fails by (rule loaded_flag)
  then have 2: "load_from exact_hnsw junk_world demo_one ''junk'' True = Some (Inr False, demo_one)"
    using load_from_rollback [of demo_one junk_world "''junk''" exact_hnsw True "Inr False"
        "loaded_manager (load_from exact_hnsw junk_world demo_one ''junk'' True)"]
    by simp
  have 3: "files junk_world ''junk'' = Some Opaque" by code_simp
  let ?long = "replicate 256 (CHR ''a'')"
  let ?e = "Inl (''filesystem error: cannot get file status: '' @ ?long) :: string + bool"
  have "load_from exact_hnsw strict_world demo_one ?long True
        = Some (?e, loaded_manager (load_from exact_hnsw strict_world demo_one ?long True))"
    using strict_load_raises by (rule loaded_flag)
  then have 4: "load_from exact_hnsw strict_world demo_one ?long True = Some (?e, demo_one)"
    using load_from_rollback [of demo_one strict_world ?long exact_hnsw True ?e
        "loaded_manager (load_from exact_hnsw strict_world demo_one ?long True)"]
    by simp
  from 1 2 3 4 demo_one_count show ?thesis by blast
qed

lemma load_from_missing_create:
  assumes "\<not> mutex_locked m" and "path \<noteq> []" and "fs_exists w path = Inr False"
  shows "load_from H w m path True =
           Some (Inr True, m\<lparr>config := (config m)\<lparr>index_path := path\<rparr>, documents := fmempty,
                              index := fresh_index H ((config m)\<lparr>index_path := path\<rparr>),
                              stats := new_stats w\<rparr>)"
proof -
  have "unlock (m\<lparr>mutex_locked := True,
                  config := (config m)\<lparr>index_path := path\<rparr>, documents := fmempty,
                  index := fresh_index H ((config m)\<lparr>index_path := path\<rparr>),
                  stats := new_stats w\<rparr>)
        = m\<lparr>config := (config m)\<lparr>index_path := path\<rparr>, documents := fmempty,
                          index := fresh_index H ((config m)\<lparr>index_path := path\<rparr>),
                          stats := new_stats w\<rparr>"
    using assms(1) by (cases m) (simp add: unlock_def)
  then show ?thesis
    unfolding load_from_def lock_free[OF assms(1)] option.case Let_def
    using assms(2,3) by simp
qed

text \<open>
  Claim C9, amended. \<^verbatim>\<open>load_from(path, true)\<close> on a non-empty path for which
  \<^verbatim>\<open>std::filesystem::exists\<close> returns false (no file exists there, and the file
  system gives the status of the path) returns true and leaves a manager with no
  documents, a fresh index built from the configuration, statistics reset to those of
  a new manager, and \<open>path\<close> as the default path; its \<^verbatim>\<open>document_count()\<close> is 0.
  (For the empty path the call returns false and changes nothing: the counterexample
  below. Where the existence test raises, the call raises and changes nothing: see
  claim C2.)
\<close>

theorem load_from_missing_reset:
  assumes "\<not> mutex_locked m" and "path \<noteq> []" and "fs_exists w path = Inr False"
  shows "\<exists>m'. load_from H w m path True = Some (Inr True, m')
           \<and> documents m' = fmempty
           \<and> config m' = (config m)\<lparr>index_path := path\<rparr>
           \<and> index m' = fresh_index H (config m')
           \<and> stats m' = new_stats w
           \<and> index_path (config m') = path
           \<and> document_count m' = Some 0"
  unfolding load_from_missing_create[OF assms]
  using assms(1) by (simp add: document_count_def lock_def)

theorem load_from_missing_reset_witness:
  "fs_exists demo_world ''missing'' = Inr False
   \<and> map_option fst (load_from exact_hnsw demo_world demo_one ''missing'' True) = Some (Inr True)
   \<and> document_count demo_one = Some 1
   \<and> document_count (loaded_manager (load_from exact_hnsw demo_world demo_one ''missing'' True))
       = Some 0"
proof -
  have ne: "''missing'' \<noteq> ([] :: string)" by simp
  from load_from_missing_reset [OF demo_one_free ne demo_world_missing, of exact_hnsw]
  obtain m' where "load_from exact_hnsw demo_world demo_one ''missing'' True = Some (Inr True, m')"
    and "document_count m' = Some 0" by blast
  then show ?thesis using demo_one_count demo_world_missing by (simp add: loaded_manager_def)
qed

text \<open>
  The claim as stated fails for the empty path, at which no file exists either
  (\<^verbatim>\<open>exists\<close> returns false for it): the first guard of \<^verbatim>\<open>load_from\<close> returns
  false and the document stays.
\<close>

theorem load_from_empty_path_fails:
  "fs_exists demo_world [] = Inr False
   \<and> load_from exact_hnsw demo_world demo_one [] True = Some (Inr False, demo_one)
   \<and> document_count demo_one = Some 1"
proof -
  have "fs_exists demo_world [] = Inr False" by code_simp
  moreover have "load_from exact_hnsw demo_world demo_one [] True = Some (Inr False, demo_one)"
    using demo_one_free by (simp add: load_from_def lock_def unlock_def)
  ultimately show ?thesis using demo_one_count by blast
qed

section \<open>Deleting, updating and reading a document\<close>

text \<open>
  Claim C5, amended. For a \<open>doc_id\<close> the manager does not hold,
  \<^verbatim>\<open>delete_document\<close> returns false and changes nothing, and \<^verbatim>\<open>get_document\<close>
  returns the empty (null) JSON value. \<^verbatim>\<open>update_document\<close> does not report the
  missing document: it drops the result of its \<^verbatim>\<open>delete_document\<close> and is exactly
  \<^verbatim>\<open>add_document\<close> on the unchanged manager.
\<close>

theorem absent_doc_id:
  assumes "\<not> mutex_locked m" and "fmlookup (documents m) doc_id = None"
  shows "delete_document H w m doc_id = Some (False, m, w)
       \<and> get_document m doc_id = Some JNull
       \<and> update_document H w m doc_id embedding content metadata
           = add_document H w m doc_id embedding content metadata"
  using assms
  by (simp add: delete_document_free get_document_def update_document_def lock_def)

lemma demo_empty_free: "\<not> mutex_locked demo_empty"
  by code_simp

lemma demo_empty_lacks_zz: "fmlookup (documents demo_empty) ''zz'' = None"
  by code_simp

theorem absent_doc_id_witness:
  "delete_document exact_hnsw demo_world demo_empty ''zz'' = Some (False, demo_empty, demo_world)
   \<and> get_document demo_empty ''zz'' = Some JNull
   \<and> update_document exact_hnsw demo_world demo_empty ''zz'' [Finite 0, Finite 1] ''zeta'' JNull
       = add_document exact_hnsw demo_world demo_empty ''zz'' [Finite 0, Finite 1] ''zeta'' JNull"
  using absent_doc_id [OF demo_empty_free demo_empty_lacks_zz] by blast

text \<open>
  The claim as stated fails for \<^verbatim>\<open>update_document\<close>: on the empty manager,
  updating the absent \<open>zz\<close> returns true and the document is there afterwards.
\<close>

theorem update_document_inserts_absent:
  "has_document demo_empty ''zz'' = Some False
   \<and> map_option fst (update_document exact_hnsw demo_world demo_empty ''zz'' [Finite 0, Finite 1] ''zeta'' JNull)
       = Some (Inr True)
   \<and> has_document
        (manager_of (update_document exact_hnsw demo_world demo_empty ''zz'' [Finite 0, Finite 1] ''zeta'' JNull))
        ''zz'' = Some True"
  by code_simp

text \<open>
  Claim C1, amended. When \<^verbatim>\<open>delete_document\<close> returns true, the document was
  held and only its metadata is removed: \<^verbatim>\<open>has_document\<close> is false and
  \<^verbatim>\<open>get_document\<close> empty afterwards. The index is not touched and no tombstone is
  recorded, so every later search returns exactly what it returned before the
  deletion.
\<close>

theorem delete_document_metadata_only:
  assumes "delete_document H w m doc_id = Some (True, m', w')"
  shows "fmlookup (documents m) doc_id \<noteq> None
       \<and> documents m' = fmdrop doc_id (documents m)
       \<and> has_document m' doc_id = Some False
       \<and> get_document m' doc_id = Some JNull
       \<and> index m' = index m
       \<and> (\<forall>q k t. search H m' q k t = search H m q k t)"
proof -
  from assms have free: "\<not> mutex_locked m" by (rule delete_document_returns_free)
  from assms have present: "fmlookup (documents m) doc_id \<noteq> None"
    unfolding delete_document_free[OF free] by (simp split: if_splits)
  from assms have "m' = update_stats H w (m\<lparr>documents := fmdrop doc_id (documents m)\<rparr>)"
    unfolding delete_document_free[OF free] by (auto split: if_splits)
  then have d: "documents m' = fmdrop doc_id (documents m)" and i: "index m' = index m"
    and u: "mutex_locked m' = mutex_locked m"
    by simp_all
  from free u have u': "\<not> mutex_locked m'" by simp
  have s: "\<forall>q k t. search H m' q k t = search H m q k t"
    using search_cong[OF i u] by blast
  have h: "has_document m' doc_id = Some False" "get_document m' doc_id = Some JNull"
    using u' d by (simp_all add: has_document_def get_document_def lock_def)
  from present d h i s show ?thesis by blast
qed

lemma demo_delete_flag:
  "map_option fst (delete_document exact_hnsw demo_world demo_one ''a'') = Some True"
  by code_simp

theorem delete_document_metadata_only_witness:
  "map_option fst (delete_document exact_hnsw demo_world demo_one ''a'') = Some True
   \<and> has_document demo_one ''a'' = Some True
   \<and> has_document demo_deleted ''a'' = Some False
   \<and> get_document demo_deleted ''a'' = Some JNull
   \<and> search exact_hnsw demo_deleted [Finite 1, Finite 0] 1 (Finite 0) = search exact_hnsw demo_one [Finite 1, Finite 0] 1 (Finite 0)"
proof -
  have "delete_document exact_hnsw demo_world demo_one ''a''
        = Some (True, demo_deleted, world_of (delete_document exact_hnsw demo_world demo_one ''a''))"
    using returned_flag [OF demo_delete_flag] by (simp add: demo_deleted_def)
  from delete_document_metadata_only [OF this]
  have "has_document demo_deleted ''a'' = Some False"
    and "get_document demo_deleted ''a'' = Some JNull"
    and "search exact_hnsw demo_deleted [Finite 1, Finite 0] 1 (Finite 0) = search exact_hnsw demo_one [Finite 1, Finite 0] 1 (Finite 0)"
    by blast+
  moreover have "has_document demo_one ''a'' = Some True" by code_simp
  ultimately show ?thesis using demo_delete_flag by blast
qed

text \<open>
  The claim as stated fails: after the document \<open>a\<close> is deleted with success, a search
  for its own embedding still returns it.
\<close>

theorem deleted_document_still_found:
  "map_option fst (delete_document exact_hnsw demo_world demo_one ''a'') = Some True
   \<and> map_option (map sr_doc_id) (search exact_hnsw demo_deleted [Finite 1, Finite 0] 1 (Finite 0)) = Some [''a'']"
  by code_simp

section \<open>Searching with a threshold\<close>

lemma not_float_less:
  "t \<noteq> NaN \<Longrightarrow> (\<not> float_less x t) = (x = NaN \<or> float_le t x)"
  by (cases x; cases t) auto

lemma float_less_not_NaN: "float_less x t \<Longrightarrow> t \<noteq> NaN"
  by (cases x; cases t) auto

text \<open>
  Claim C7, amended. With a threshold above 0, \<^verbatim>\<open>search\<close> returns the index's
  answer with exactly those results removed whose similarity compares below the
  threshold. Every result it returns has a similarity of at least the threshold or
  a similarity that is not a number (which compares below nothing, so the filter
  keeps it); the list can be shorter than the index's answer, and than \<open>top_k\<close>.
\<close>

theorem search_threshold:
  assumes "float_less (Finite 0) t" and "\<not> mutex_locked m"
  shows "\<exists>rs. search H m q k t = Some rs
          \<and> rs = filter (\<lambda>r. \<not> float_less (sr_similarity r) t) (hnsw_search H q k (index m))
          \<and> rs = filter (\<lambda>r. sr_similarity r = NaN \<or> float_le t (sr_similarity r))
                   (hnsw_search H q k (index m))
          \<and> (\<forall>r \<in> set rs. sr_similarity r = NaN \<or> float_le t (sr_similarity r))
          \<and> length rs \<le> length (hnsw_search H q k (index m))"
proof -
  let ?xs = "hnsw_search H q k (index m)"
  let ?rs = "filter (\<lambda>r. \<not> float_less (sr_similarity r) t) ?xs"
  from assms have s: "search H m q k t = Some ?rs"
    by (simp add: search_def lock_def)
  have e: "\<not> float_less x t \<longleftrightarrow> x = NaN \<or> float_le t x" for x
    using float_less_not_NaN [OF assms(1)] by (rule not_float_less)
  have 1: "?rs = filter (\<lambda>r. sr_similarity r = NaN \<or> float_le t (sr_similarity r)) ?xs"
    unfolding e ..
  have 2: "\<forall>r \<in> set ?rs. sr_similarity r = NaN \<or> float_le t (sr_similarity r)"
    unfolding e by simp
  have 3: "length ?rs \<le> length ?xs" by simp
  from s 1 2 3 show ?thesis by blast
qed

lemma demo_two_free: "\<not> mutex_locked demo_two"
  by code_simp

lemma demo_two_search:
  "map_option (map sr_doc_id) (search exact_hnsw demo_two [Finite 1, Finite 0] 2 (Finite (3 / 4)))
   = Some [''a'']"
  by code_simp

theorem search_threshold_witness:
  "float_less (Finite 0) (Finite (3 / 4))
   \<and> map_option (map sr_doc_id) (search exact_hnsw demo_two [Finite 1, Finite 0] 2 (Finite 0))
       = Some [''a'', ''c'']
   \<and> map_option (map sr_doc_id) (search exact_hnsw demo_two [Finite 1, Finite 0] 2 (Finite (3 / 4)))
       = Some [''a'']
   \<and> list_all (\<lambda>r. sr_similarity r = NaN \<or> float_le (Finite (3 / 4)) (sr_similarity r))
        (the (search exact_hnsw demo_two [Finite 1, Finite 0] 2 (Finite (3 / 4))))
   \<and> length (the (search exact_hnsw demo_two [Finite 1, Finite 0] 2 (Finite (3 / 4)))) < 2"
proof -
  have pos: "float_less (Finite 0) (Finite (3 / 4))" by simp
  from search_threshold [OF pos demo_two_free, of exact_hnsw "[Finite 1, Finite 0]" 2] obtain rs
    where rs: "search exact_hnsw demo_two [Finite 1, Finite 0] 2 (Finite (3 / 4)) = Some rs"
      and ge: "\<forall>r \<in> set rs. sr_similarity r = NaN \<or> float_le (Finite (3 / 4)) (sr_similarity r)"
    by blast
  from ge have "list_all (\<lambda>r. sr_similarity r = NaN \<or> float_le (Finite (3 / 4)) (sr_similarity r)) rs"
    unfolding list_all_iff .
  moreover from demo_two_search rs have "map sr_doc_id rs = [''a'']" by simp
  then have "length rs < 2" by (cases rs) auto
  moreover have
    "map_option (map sr_doc_id) (search exact_hnsw demo_two [Finite 1, Finite 0] 2 (Finite 0))
     = Some [''a'', ''c'']"
    by code_simp
  ultimately show ?thesis using pos rs demo_two_search by simp
qed

text \<open>
  The claim as stated fails for a query embedding with a component that is not a
  number: the manager passes it to the index unchecked, both similarities come out as
  not-a-number, the filter keeps them, and neither is at least the threshold 3/4.
\<close>

theorem search_keeps_nan_similarity:
  "float_less (Finite 0) (Finite (3 / 4))
   \<and> map_option (map sr_similarity) (search exact_hnsw demo_two [NaN, Finite 0] 2 (Finite (3 / 4)))
       = Some [NaN, NaN]
   \<and> \<not> float_le (Finite (3 / 4)) NaN"
  by code_simp

section \<open>The stored metadata\<close>

lemma create_metadata_Inr:
  assumes "create_metadata w doc_id content metadata = Inr full"
  shows "(metadata = JNull \<or> (\<exists>u. metadata = JObject u))
       \<and> full = JObject
           (fmupd ''indexed_at'' (JInt (to_seconds (system_now w)))
             (fmupd ''content_length'' (JUnsigned (length content))
               (fmupd ''content'' (JString content)
                 (fmupd ''doc_id'' (JString doc_id)
                   (case metadata of JObject u \<Rightarrow> u | _ \<Rightarrow> fmempty)))))"
  using assms
  by (cases metadata) (simp_all add: create_metadata_def json_set_def)

text \<open>
  Claim C8. After \<^verbatim>\<open>add_document(doc_id, embedding, content, metadata)\<close> has
  returned true, \<^verbatim>\<open>get_document(doc_id)\<close> is the user's metadata (an object, or
  null, which counts as the empty object) with four keys set: \<open>doc_id\<close> to the given
  identifier, \<open>content\<close> to the given content, \<open>content_length\<close> to its length in
  bytes and \<open>indexed_at\<close> to the system clock's reading in seconds at the insertion.
\<close>

theorem add_document_stores_metadata:
  assumes "add_document H w m doc_id embedding content metadata = Some (Inr True, m', w')"
  shows "(metadata = JNull \<or> (\<exists>u. metadata = JObject u))
       \<and> get_document m' doc_id =
           Some (JObject
             (fmupd ''indexed_at'' (JInt (to_seconds (system_now w)))
               (fmupd ''content_length'' (JUnsigned (length content))
                 (fmupd ''content'' (JString content)
                   (fmupd ''doc_id'' (JString doc_id)
                     (case metadata of JObject u \<Rightarrow> u | _ \<Rightarrow> fmempty))))))"
proof -
  from assms have free: "\<not> mutex_locked m" by (rule add_document_returns_free)
  from assms obtain full where cm: "create_metadata w doc_id content metadata = Inr full"
    unfolding add_document_free[OF free]
    by (cases "create_metadata w doc_id content metadata") simp_all
  obtain out idx where ha: "hnsw_add_document H doc_id embedding content full (index m) = (out, idx)"
    by (cases "hnsw_add_document H doc_id embedding content full (index m)")
  from assms have "m' = update_stats H w (m\<lparr>index := idx,
                           documents := fmupd doc_id full (documents m)\<rparr>)"
    using cm ha
    by (cases out) (auto simp: add_document_free[OF free] split: if_splits)
  then have "get_document m' doc_id = Some full"
    using free by (simp add: get_document_def lock_def)
  with create_metadata_Inr[OF cm] show ?thesis by simp
qed

lemma demo_add_tagged_flag:
  "map_option fst
     (add_document exact_hnsw demo_world demo_empty ''b'' [Finite 0, Finite 1] ''beta''
        (JObject (fmupd ''lang'' (JString ''en'') fmempty)))
   = Some (Inr True)"
  by code_simp

theorem add_document_stores_metadata_witness:
  "map_option fst
     (add_document exact_hnsw demo_world demo_empty ''b'' [Finite 0, Finite 1] ''beta''
        (JObject (fmupd ''lang'' (JString ''en'') fmempty)))
   = Some (Inr True)
   \<and> get_document
        (manager_of
          (add_document exact_hnsw demo_world demo_empty ''b'' [Finite 0, Finite 1] ''beta''
             (JObject (fmupd ''lang'' (JString ''en'') fmempty))))
        ''b''
       = Some (JObject
           (fmupd ''indexed_at'' (JInt 0)
             (fmupd ''content_length'' (JUnsigned 4)
               (fmupd ''content'' (JString ''beta'')
                 (fmupd ''doc_id'' (JString ''b'')
                   (fmupd ''lang'' (JString ''en'') fmempty))))))"
proof -
  have t: "to_seconds (system_now demo_world) = 0" by code_simp
  from add_document_stores_metadata [OF returned_flag [OF demo_add_tagged_flag]]
  show ?thesis using demo_add_tagged_flag t by (simp add: eval_nat_numeral)
qed

section \<open>Batches\<close>

lemma add_batch_mismatch:
  assumes "length doc_ids \<noteq> length embeddings \<or> length doc_ids \<noteq> length contents
           \<or> (metadatas \<noteq> [] \<and> length metadatas \<noteq> length doc_ids)"
  shows "\<exists>e. add_batch H w m doc_ids embeddings contents metadatas =
           Some (\<lparr>total = length doc_ids, successful = 0, failed = 0, error_messages = [e]\<rparr>,
                 m, w)"
  using assms by (auto simp: add_batch_def Let_def)

text \<open>
  Claim C10, amended. When the three arrays differ in length, or a non-empty
  \<open>metadatas\<close> differs in length from \<open>doc_ids\<close>, \<^verbatim>\<open>add_batch\<close> returns a result
  with \<open>total\<close> the number of \<open>doc_ids\<close>, \<open>successful = 0\<close>, \<open>failed = 0\<close>, one
  error message and a success rate of 0; \<open>total\<close> differs from
  \<open>successful + failed\<close> exactly when \<open>doc_ids\<close> is not empty.
\<close>

theorem add_batch_size_mismatch_result:
  assumes "length doc_ids \<noteq> length embeddings \<or> length doc_ids \<noteq> length contents
           \<or> (metadatas \<noteq> [] \<and> length metadatas \<noteq> length doc_ids)"
  shows "\<exists>r. add_batch H w m doc_ids embeddings contents metadatas = Some (r, m, w)
           \<and> total r = length doc_ids \<and> successful r = 0 \<and> failed r = 0
           \<and> length (error_messages r) = 1 \<and> success_rate r = 0
           \<and> (total r \<noteq> successful r + failed r \<longleftrightarrow> doc_ids \<noteq> [])"
proof -
  from add_batch_mismatch [OF assms] obtain e where
    "add_batch H w m doc_ids embeddings contents metadatas =
       Some (\<lparr>total = length doc_ids, successful = 0, failed = 0, error_messages = [e]\<rparr>, m, w)"
    by blast
  then show ?thesis by (simp add: success_rate_def)
qed

theorem add_batch_size_mismatch_result_witness:
  "length [''a'', ''b''] \<noteq> length [[Finite 1, Finite 0]]
   \<and> map_option (\<lambda>(r, m, w). (total r, successful r, failed r, length (error_messages r),
                               success_rate r))
        (add_batch exact_hnsw demo_world demo_empty [''a'', ''b''] [[Finite 1, Finite 0]] [''x'', ''y''] [])
       = Some (2, 0, 0, 1, 0)"
proof -
  have ne: "length [''a'', ''b''] \<noteq> length [[Finite 1, Finite 0]]
            \<or> length [''a'', ''b''] \<noteq> length [''x'', ''y'']
            \<or> (([] :: json list) \<noteq> [] \<and> length ([] :: json list) \<noteq> length [''a'', ''b''])"
    by simp
  from add_batch_size_mismatch_result [OF ne, of exact_hnsw demo_world demo_empty]
  show ?thesis by auto
qed

text \<open>
  The claim as stated fails for an empty \<open>doc_ids\<close> against a non-empty
  \<open>embeddings\<close>: the sizes differ, and \<open>total = 0 = successful + failed\<close>.
\<close>

theorem empty_batch_mismatch_totals_agree:
  "length ([] :: string list) \<noteq> length [[Finite 1, Finite 0]]
   \<and> map_option (\<lambda>(r, m, w). (total r, successful r + failed r, error_messages r))
        (add_batch exact_hnsw demo_world demo_empty [] [[Finite 1, Finite 0]] [] [])
       = Some (0, 0, [''Input size mismatch''])"
  by (simp add: add_batch_def)

text \<open>The loop of \<^verbatim>\<open>add_batch\<close> touches neither the mutex, the configuration nor
  the time of the last save.\<close>

lemma add_batch_step_frame:
  assumes "add_batch_step H w doc_ids embeddings contents metadatas i (r, m) = (r', m')"
  shows "mutex_locked m' = mutex_locked m \<and> config m' = config m \<and> last_save m' = last_save m"
  using assms
  by (auto simp: add_batch_step_def Let_def split: sum.splits prod.splits add_outcome.splits)

lemma add_batch_fold_frame:
  assumes "fold (add_batch_step H w doc_ids embeddings contents metadatas) is (r, m) = (r', m')"
  shows "mutex_locked m' = mutex_locked m \<and> config m' = config m \<and> last_save m' = last_save m"
  using assms
proof (induction "is" arbitrary: r m)
  case Nil
  then show ?case by simp
next
  case (Cons i "is")
  obtain r1 m1 where s: "add_batch_step H w doc_ids embeddings contents metadatas i (r, m) = (r1, m1)"
    by (cases "add_batch_step H w doc_ids embeddings contents metadatas i (r, m)")
  from Cons.prems s
  have "fold (add_batch_step H w doc_ids embeddings contents metadatas) is (r1, m1) = (r', m')"
    by simp
  from Cons.IH [OF this] add_batch_step_frame [OF s] show ?case by simp
qed

lemma add_batch_free:
  assumes "\<not> mutex_locked m"
    and "length doc_ids = length embeddings" and "length doc_ids = length contents"
    and "metadatas = [] \<or> length metadatas = length doc_ids"
  shows "add_batch H w m doc_ids embeddings contents metadatas =
     (case fold (add_batch_step H w doc_ids embeddings contents metadatas) [0..<length doc_ids]
             (\<lparr>total = length doc_ids, successful = 0, failed = 0, error_messages = []\<rparr>,
              m\<lparr>mutex_locked := True\<rparr>) of
        (r, mn) \<Rightarrow>
          if should_auto_save w m then None
          else Some (r, unlock (update_stats H w mn), w))"
proof -
  let ?r0 = "\<lparr>total = length doc_ids, successful = 0, failed = 0, error_messages = []\<rparr>"
  obtain r mn where
    f: "fold (add_batch_step H w doc_ids embeddings contents metadatas) [0..<length doc_ids]
             (?r0, m\<lparr>mutex_locked := True\<rparr>) = (r, mn)"
    by (cases "fold (add_batch_step H w doc_ids embeddings contents metadatas) [0..<length doc_ids]
             (?r0, m\<lparr>mutex_locked := True\<rparr>)")
  from add_batch_fold_frame [OF f]
  have k: "mutex_locked mn" "config mn = config m" "last_save mn = last_save m"
    by simp_all
  have s: "should_auto_save w (update_stats H w mn) = should_auto_save w m"
    by (rule should_auto_save_cong) (simp_all add: k)
  have n: "save H w (update_stats H w mn) = None"
    by (rule save_when_locked) (simp add: k)
  show ?thesis
    unfolding add_batch_def Let_def lock_free [OF assms(1)] option.case f
    using assms(2,3,4) s n by auto
qed

text \<open>One round of the loop against one call of \<^verbatim>\<open>add_document\<close>, when no auto-save
  is due: the same answer from the index, the same record stored.\<close>

lemma batch_round:
  assumes "\<not> mutex_locked ms" and "\<not> should_auto_save w ms"
    and "documents mj = documents ms" and "index mj = index ms"
  shows "\<exists>x ms' r' mj'.
      add_document H w ms (doc_ids ! i) (embeddings ! i) (contents ! i)
          (if metadatas \<noteq> [] then metadatas ! i else JNull) = Some (x, ms', w)
    \<and> add_batch_step H w doc_ids embeddings contents metadatas i (r, mj) = (r', mj')
    \<and> total r' = total r
    \<and> successful r' = successful r + (if x = Inr True then 1 else 0)
    \<and> failed r' = failed r + (if x = Inr True then 0 else 1)
    \<and> error_messages r' = error_messages r @ item_message (doc_ids ! i) x
    \<and> documents mj' = documents ms' \<and> index mj' = index ms'
    \<and> \<not> mutex_locked ms' \<and> config ms' = config ms \<and> last_save ms' = last_save ms
    \<and> (\<forall>d. fmlookup (documents ms) d \<noteq> None \<longrightarrow> fmlookup (documents ms') d \<noteq> None)"
  using assms
  unfolding add_document_free [OF assms(1)] add_batch_step_def Let_def
  by (auto simp: item_message_def split: sum.splits prod.splits add_outcome.splits)

lemma add_each_snoc:
  "add_each H w m (items @ [(doc_id, embedding, content, metadata)]) =
     (case add_each H w m items of
        None \<Rightarrow> None
      | Some (xs, m1, w1) \<Rightarrow>
         (case add_document H w1 m1 doc_id embedding content metadata of
            None \<Rightarrow> None
          | Some (x, m2, w2) \<Rightarrow> Some (xs @ [x], m2, w2)))"
  by (induction H w m items rule: add_each.induct) (auto split: option.splits)

lemma batch_items_take_Suc:
  assumes "j < length doc_ids"
  shows "take (Suc j) (batch_items doc_ids embeddings contents metadatas) =
           take j (batch_items doc_ids embeddings contents metadatas)
           @ [(doc_ids ! j, embeddings ! j, contents ! j,
               if metadatas \<noteq> [] then metadatas ! j else JNull)]"
proof -
  have l: "j < length (batch_items doc_ids embeddings contents metadatas)"
    using assms by (simp add: batch_items_def)
  have n: "batch_items doc_ids embeddings contents metadatas ! j
           = (doc_ids ! j, embeddings ! j, contents ! j,
               if metadatas \<noteq> [] then metadatas ! j else JNull)"
    using assms by (simp add: batch_items_def)
  from take_Suc_conv_app_nth [OF l] n show ?thesis by simp
qed

lemma messages_take_Suc:
  assumes "j < length doc_ids" and "length xs = j"
  shows "concat (map2 item_message (take (Suc j) doc_ids) (xs @ [x]))
         = concat (map2 item_message (take j doc_ids) xs) @ item_message (doc_ids ! j) x"
proof -
  have "take (Suc j) doc_ids = take j doc_ids @ [doc_ids ! j]"
    using assms(1) by (rule take_Suc_conv_app_nth)
  moreover have "length (take j doc_ids) = length xs" using assms by simp
  ultimately show ?thesis by simp
qed

text \<open>The loop invariant: after \<open>j\<close> rounds the loop has stored what \<open>j\<close> calls of
  \<^verbatim>\<open>add_document\<close> store, and counted their answers.\<close>

lemma batch_loop_as_add_each:
  assumes free: "\<not> mutex_locked m" and nd: "\<not> should_auto_save w m"
  shows "j \<le> length doc_ids \<Longrightarrow>
    \<exists>r mj xs ms.
      fold (add_batch_step H w doc_ids embeddings contents metadatas) [0..<j]
           (\<lparr>total = length doc_ids, successful = 0, failed = 0, error_messages = []\<rparr>,
            m\<lparr>mutex_locked := True\<rparr>) = (r, mj)
    \<and> add_each H w m (take j (batch_items doc_ids embeddings contents metadatas))
        = Some (xs, ms, w)
    \<and> documents mj = documents ms \<and> index mj = index ms
    \<and> \<not> mutex_locked ms \<and> config ms = config m \<and> last_save ms = last_save m
    \<and> length xs = j
    \<and> total r = length doc_ids
    \<and> successful r = length (filter (\<lambda>x. x = Inr True) xs)
    \<and> failed r = length (filter (\<lambda>x. x \<noteq> Inr True) xs)
    \<and> error_messages r = concat (map2 item_message (take j doc_ids) xs)
    \<and> (\<forall>d. fmlookup (documents m) d \<noteq> None \<longrightarrow> fmlookup (documents ms) d \<noteq> None)"
proof (induction j)
  case 0
  show ?case using free by simp
next
  case (Suc j)
  then have jl: "j < length doc_ids" by simp
  let ?step = "add_batch_step H w doc_ids embeddings contents metadatas"
  let ?items = "batch_items doc_ids embeddings contents metadatas"
  from Suc obtain r mj xs ms where
    f: "fold ?step [0..<j]
           (\<lparr>total = length doc_ids, successful = 0, failed = 0, error_messages = []\<rparr>,
            m\<lparr>mutex_locked := True\<rparr>) = (r, mj)"
    and e: "add_each H w m (take j ?items) = Some (xs, ms, w)"
    and d: "documents mj = documents ms" and i: "index mj = index ms"
    and u: "\<not> mutex_locked ms" and c: "config ms = config m" and l: "last_save ms = last_save m"
    and n: "length xs = j"
    and t: "total r = length doc_ids"
    and s: "successful r = length (filter (\<lambda>x. x = Inr True) xs)"
    and fl: "failed r = length (filter (\<lambda>x. x \<noteq> Inr True) xs)"
    and em: "error_messages r = concat (map2 item_message (take j doc_ids) xs)"
    and k: "\<forall>d. fmlookup (documents m) d \<noteq> None \<longrightarrow> fmlookup (documents ms) d \<noteq> None"
    by auto
  have nd': "\<not> should_auto_save w ms"
    using nd should_auto_save_cong [OF c l, of w] by simp
  from batch_round [OF u nd' d i, of H doc_ids j embeddings contents metadatas r]
  obtain x ms' r' mj' where
    a: "add_document H w ms (doc_ids ! j) (embeddings ! j) (contents ! j)
          (if metadatas \<noteq> [] then metadatas ! j else JNull) = Some (x, ms', w)"
    and st: "?step j (r, mj) = (r', mj')"
    and t': "total r' = total r"
    and s': "successful r' = successful r + (if x = Inr True then 1 else 0)"
    and fl': "failed r' = failed r + (if x = Inr True then 0 else 1)"
    and em': "error_messages r' = error_messages r @ item_message (doc_ids ! j) x"
    and d': "documents mj' = documents ms'" and i': "index mj' = index ms'"
    and u': "\<not> mutex_locked ms'" and c': "config ms' = config ms"
    and l': "last_save ms' = last_save ms"
    and k': "\<forall>d. fmlookup (documents ms) d \<noteq> None \<longrightarrow> fmlookup (documents ms') d \<noteq> None"
    by blast
  have f': "fold ?step [0..<Suc j]
           (\<lparr>total = length doc_ids, successful = 0, failed = 0, error_messages = []\<rparr>,
            m\<lparr>mutex_locked := True\<rparr>) = (r', mj')"
    using f st by simp
  have e': "add_each H w m (take (Suc j) ?items) = Some (xs @ [x], ms', w)"
    unfolding batch_items_take_Suc [OF jl] add_each_snoc using e a by simp
  have em'': "error_messages r' = concat (map2 item_message (take (Suc j) doc_ids) (xs @ [x]))"
    unfolding messages_take_Suc [OF jl n] using em em' by simp
  have s'': "successful r' = length (filter (\<lambda>x. x = Inr True) (xs @ [x]))"
    using s s' by simp
  have fl'': "failed r' = length (filter (\<lambda>x. x \<noteq> Inr True) (xs @ [x]))"
    using fl fl' by simp
  have k'': "\<forall>d. fmlookup (documents m) d \<noteq> None \<longrightarrow> fmlookup (documents ms') d \<noteq> None"
    using k k' by blast
  have n': "length (xs @ [x]) = Suc j" using n by simp
  have c'': "config ms' = config m" using c c' by simp
  have l'': "last_save ms' = last_save m" using l l' by simp
  have t'': "total r' = length doc_ids" using t t' by simp
  from f' e' d' i' u' c'' l'' n' t'' s'' fl'' em'' k'' show ?case by blast
qed

text \<open>
  Claim C6, as the code has it. A batch whose arrays differ in length (or whose
  non-empty \<open>metadatas\<close> differs in length from \<open>doc_ids\<close>) is refused as a whole:
  the call returns a result with no success and an error message, and the manager
  and the world are unchanged. A batch of matching sizes is not atomic when no
  auto-save is due: the call returns, it has stored exactly what giving the items to
  \<^verbatim>\<open>add_document\<close> one after the other stores (the same documents with the same
  records, the same index), \<open>successful\<close> counts the items inserted and \<open>failed\<close> the
  others, each with its error message in order, and no document held before the
  batch is lost. When an auto-save is due, the call does not return and reports
  nothing: it calls the public \<^verbatim>\<open>save()\<close> while it holds the mutex that
  \<^verbatim>\<open>save()\<close> locks.
\<close>

theorem add_batch_not_atomic:
  "(length doc_ids \<noteq> length embeddings \<or> length doc_ids \<noteq> length contents
      \<or> (metadatas \<noteq> [] \<and> length metadatas \<noteq> length doc_ids)
     \<longrightarrow> (\<exists>r. add_batch H w m doc_ids embeddings contents metadatas = Some (r, m, w)
              \<and> successful r = 0 \<and> error_messages r \<noteq> []))
   \<and> (length doc_ids = length embeddings \<and> length doc_ids = length contents
        \<and> (metadatas = [] \<or> length metadatas = length doc_ids)
        \<and> \<not> mutex_locked m \<and> should_auto_save w m
     \<longrightarrow> add_batch H w m doc_ids embeddings contents metadatas = None)
   \<and> (length doc_ids = length embeddings \<and> length doc_ids = length contents
        \<and> (metadatas = [] \<or> length metadatas = length doc_ids)
        \<and> \<not> mutex_locked m \<and> \<not> should_auto_save w m
     \<longrightarrow> (\<exists>r m' xs ms.
            add_batch H w m doc_ids embeddings contents metadatas = Some (r, m', w)
          \<and> add_each H w m (batch_items doc_ids embeddings contents metadatas)
              = Some (xs, ms, w)
          \<and> length xs = length doc_ids
          \<and> documents m' = documents ms \<and> index m' = index ms
          \<and> total r = length doc_ids
          \<and> successful r = length (filter (\<lambda>x. x = Inr True) xs)
          \<and> failed r = length (filter (\<lambda>x. x \<noteq> Inr True) xs)
          \<and> successful r + failed r = total r
          \<and> error_messages r = concat (map2 item_message doc_ids xs)
          \<and> (\<forall>d. fmlookup (documents m) d \<noteq> None
                  \<longrightarrow> fmlookup (documents m') d \<noteq> None)))"
proof (intro conjI; rule impI)
  assume "length doc_ids \<noteq> length embeddings \<or> length doc_ids \<noteq> length contents
      \<or> (metadatas \<noteq> [] \<and> length metadatas \<noteq> length doc_ids)"
  from add_batch_mismatch [OF this, of H w m]
  show "\<exists>r. add_batch H w m doc_ids embeddings contents metadatas = Some (r, m, w)
              \<and> successful r = 0 \<and> error_messages r \<noteq> []"
    by auto
next
  assume "length doc_ids = length embeddings \<and> length doc_ids = length contents
        \<and> (metadatas = [] \<or> length metadatas = length doc_ids)
        \<and> \<not> mutex_locked m \<and> should_auto_save w m"
  then show "add_batch H w m doc_ids embeddings contents metadatas = None"
    using add_batch_free [of m doc_ids embeddings contents metadatas H w]
    by (auto split: prod.splits)
next
  let ?n = "length doc_ids"
  assume a: "length doc_ids = length embeddings \<and> length doc_ids = length contents
        \<and> (metadatas = [] \<or> length metadatas = length doc_ids)
        \<and> \<not> mutex_locked m \<and> \<not> should_auto_save w m"
  then have free: "\<not> mutex_locked m" and nd: "\<not> should_auto_save w m" by simp_all
  from batch_loop_as_add_each [OF free nd, of ?n doc_ids H embeddings contents metadatas]
  obtain r mn xs ms where
    f: "fold (add_batch_step H w doc_ids embeddings contents metadatas) [0..<?n]
           (\<lparr>total = ?n, successful = 0, failed = 0, error_messages = []\<rparr>,
            m\<lparr>mutex_locked := True\<rparr>) = (r, mn)"
    and e: "add_each H w m (take ?n (batch_items doc_ids embeddings contents metadatas))
              = Some (xs, ms, w)"
    and d: "documents mn = documents ms" and i: "index mn = index ms"
    and n: "length xs = ?n"
    and t: "total r = ?n"
    and s: "successful r = length (filter (\<lambda>x. x = Inr True) xs)"
    and fl: "failed r = length (filter (\<lambda>x. x \<noteq> Inr True) xs)"
    and em: "error_messages r = concat (map2 item_message (take ?n doc_ids) xs)"
    and k: "\<forall>d. fmlookup (documents m) d \<noteq> None \<longrightarrow> fmlookup (documents ms) d \<noteq> None"
    by auto
  let ?m' = "unlock (update_stats H w mn)"
  have run: "add_batch H w m doc_ids embeddings contents metadatas = Some (r, ?m', w)"
  proof -
    from a have sz: "length doc_ids = length embeddings" "length doc_ids = length contents"
      "metadatas = [] \<or> length metadatas = length doc_ids" by blast+
    show ?thesis unfolding add_batch_free [OF free sz] f using nd by simp
  qed
  have e': "add_each H w m (batch_items doc_ids embeddings contents metadatas) = Some (xs, ms, w)"
    using e by (simp add: batch_items_def)
  have d': "documents ?m' = documents ms" and i': "index ?m' = index ms"
    using d i by (simp_all add: unlock_def)
  have sum: "successful r + failed r = total r"
    using s fl t n sum_length_filter_compl [of "\<lambda>x. x = Inr True" xs] by simp
  have em': "error_messages r = concat (map2 item_message doc_ids xs)" using em by simp
  have k': "\<forall>d. fmlookup (documents m) d \<noteq> None \<longrightarrow> fmlookup (documents ?m') d \<noteq> None"
    using k d' by simp
  from run e' n d' i' t s fl sum em' k'
  show "\<exists>r m' xs ms.
            add_batch H w m doc_ids embeddings contents metadatas = Some (r, m', w)
          \<and> add_each H w m (batch_items doc_ids embeddings contents metadatas)
              = Some (xs, ms, w)
          \<and> length xs = length doc_ids
          \<and> documents m' = documents ms \<and> index m' = index ms
          \<and> total r = length doc_ids
          \<and> successful r = length (filter (\<lambda>x. x = Inr True) xs)
          \<and> failed r = length (filter (\<lambda>x. x \<noteq> Inr True) xs)
          \<and> successful r + failed r = total r
          \<and> error_messages r = concat (map2 item_message doc_ids xs)
          \<and> (\<forall>d. fmlookup (documents m) d \<noteq> None
                  \<longrightarrow> fmlookup (documents m') d \<noteq> None)"
    by blast
qed

lemma late_batch_due:
  "\<not> mutex_locked disk_empty \<and> should_auto_save late_world disk_empty"
  by code_simp

lemma early_batch_result:
  "map_option fst
     (add_batch exact_hnsw demo_world disk_empty [''a'', ''a'']
        [[Finite 1, Finite 0], [Finite 1, Finite 0]] [''x'', ''y''] [])
   = Some \<lparr>total = 2, successful = 1, failed = 1,
           error_messages = [''Failed to add document: a'']\<rparr>"
  by code_simp

lemma early_batch_record:
  "get_document
     (manager_of
        (add_batch exact_hnsw demo_world disk_empty [''a'', ''a'']
           [[Finite 1, Finite 0], [Finite 1, Finite 0]] [''x'', ''y''] []))
     ''a''
   = Some (JObject
       (fmupd ''indexed_at'' (JInt 0)
         (fmupd ''content_length'' (JUnsigned 1)
           (fmupd ''content'' (JString ''x'')
             (fmupd ''doc_id'' (JString ''a'') fmempty)))))"
  by code_simp

theorem add_batch_not_atomic_witness:
  "should_auto_save late_world disk_empty
   \<and> add_batch exact_hnsw late_world disk_empty [''a'', ''a'']
        [[Finite 1, Finite 0], [Finite 1, Finite 0]] [''x'', ''y''] [] = None
   \<and> map_option fst
        (add_batch exact_hnsw demo_world disk_empty [''a'', ''a'']
           [[Finite 1, Finite 0], [Finite 1, Finite 0]] [''x'', ''y''] [])
       = Some \<lparr>total = 2, successful = 1, failed = 1,
               error_messages = [''Failed to add document: a'']\<rparr>
   \<and> get_document
        (manager_of
           (add_batch exact_hnsw demo_world disk_empty [''a'', ''a'']
              [[Finite 1, Finite 0], [Finite 1, Finite 0]] [''x'', ''y''] []))
        ''a''
       = Some (JObject
           (fmupd ''indexed_at'' (JInt 0)
             (fmupd ''content_length'' (JUnsigned 1)
               (fmupd ''content'' (JString ''x'')
                 (fmupd ''doc_id'' (JString ''a'') fmempty)))))
   \<and> add_batch exact_hnsw demo_world demo_one [''b''] [] [''beta''] []
       = Some (\<lparr>total = 1, successful = 0, failed = 0,
                 error_messages = [''Input size mismatch'']\<rparr>, demo_one, demo_world)"
proof -
  let ?ids = "[''a'', ''a'']"
  let ?es = "[[Finite 1, Finite 0], [Finite 1, Finite 0]]"
  let ?cs = "[''x'', ''y'']"
  have sizes: "length ?ids = length ?es \<and> length ?ids = length ?cs
               \<and> (([] :: json list) = [] \<or> length ([] :: json list) = length ?ids)"
    by simp
  from add_batch_not_atomic [of ?ids ?es ?cs "[]" exact_hnsw late_world disk_empty]
    sizes late_batch_due
  have 1: "add_batch exact_hnsw late_world disk_empty ?ids ?es ?cs [] = None"
    by blast
  have "add_batch exact_hnsw demo_world demo_one [''b''] [] [''beta''] []
       = Some (\<lparr>total = 1, successful = 0, failed = 0,
                 error_messages = [''Input size mismatch'']\<rparr>, demo_one, demo_world)"
    by (simp add: add_batch_def)
  with 1 late_batch_due early_batch_result early_batch_record show ?thesis by blast
qed

section \<open>Auto-save\<close>

text \<open>
  Claim C4, as the code has it. When auto-save is due (it is switched on, a path is
  set and at least \<open>save_interval\<close> seconds have passed since the last save),
  \<^verbatim>\<open>delete_document\<close> of a held document, \<^verbatim>\<open>add_document\<close> of a document the
  index accepts and \<^verbatim>\<open>add_batch\<close> of arrays of matching sizes do not return: each
  calls the public \<^verbatim>\<open>save()\<close> while it holds the mutex that \<^verbatim>\<open>save()\<close> locks. No
  snapshot is written and the time of the last save is not updated.
\<close>

theorem auto_save_relocks_mutex:
  assumes "\<not> mutex_locked m" and "auto_save (config m)" and "index_path (config m) \<noteq> []"
    and "save_interval (config m) \<le> to_seconds (steady_now w - last_save m)"
  shows "(fmlookup (documents m) doc_id \<noteq> None \<longrightarrow> delete_document H w m doc_id = None)
       \<and> (\<forall>full. create_metadata w doc_id content metadata = Inr full
                  \<and> fst (hnsw_add_document H doc_id embedding content full (index m)) = Accepted
             \<longrightarrow> add_document H w m doc_id embedding content metadata = None)
       \<and> (length doc_ids = length embeddings \<and> length doc_ids = length contents
            \<and> (metadatas = [] \<or> length metadatas = length doc_ids)
             \<longrightarrow> add_batch H w m doc_ids embeddings contents metadatas = None)"
proof -
  from assms(2,3,4) have due: "should_auto_save w m"
    by (simp add: should_auto_save_def)
  have 1: "fmlookup (documents m) doc_id \<noteq> None \<longrightarrow> delete_document H w m doc_id = None"
    using due by (simp add: delete_document_free [OF assms(1)])
  have 2: "\<forall>full. create_metadata w doc_id content metadata = Inr full
                  \<and> fst (hnsw_add_document H doc_id embedding content full (index m)) = Accepted
             \<longrightarrow> add_document H w m doc_id embedding content metadata = None"
    using due by (auto simp: add_document_free [OF assms(1)] split: prod.splits)
  have 3: "length doc_ids = length embeddings \<and> length doc_ids = length contents
            \<and> (metadatas = [] \<or> length metadatas = length doc_ids)
             \<longrightarrow> add_batch H w m doc_ids embeddings contents metadatas = None"
    using due by (auto simp: add_batch_free [OF assms(1)] split: prod.splits)
  from 1 2 3 show ?thesis by blast
qed

lemma disk_empty_due:
  "\<not> mutex_locked disk_empty \<and> auto_save (config disk_empty)
   \<and> index_path (config disk_empty) = ''data/idx''
   \<and> save_interval (config disk_empty) = 300
   \<and> to_seconds (steady_now late_world - last_save disk_empty) = 300"
  by code_simp

lemma disk_empty_accepts:
  "create_metadata late_world ''a'' ''alpha'' JNull
     = Inr (JObject
         (fmupd ''indexed_at'' (JInt 0)
           (fmupd ''content_length'' (JUnsigned 5)
             (fmupd ''content'' (JString ''alpha'')
               (fmupd ''doc_id'' (JString ''a'') fmempty)))))
   \<and> fst (hnsw_add_document exact_hnsw ''a'' [Finite 1, Finite 0] ''alpha''
            (JObject
              (fmupd ''indexed_at'' (JInt 0)
                (fmupd ''content_length'' (JUnsigned 5)
                  (fmupd ''content'' (JString ''alpha'')
                    (fmupd ''doc_id'' (JString ''a'') fmempty)))))
            (index disk_empty)) = Accepted"
  by code_simp

theorem auto_save_relocks_mutex_witness:
  "add_document exact_hnsw late_world disk_empty ''a'' [Finite 1, Finite 0] ''alpha'' JNull = None
   \<and> add_batch exact_hnsw late_world disk_empty [''a''] [[Finite 1, Finite 0]] [''alpha''] [] = None
   \<and> map_option fst (add_document exact_hnsw demo_world disk_empty ''a'' [Finite 1, Finite 0] ''alpha'' JNull)
       = Some (Inr True)
   \<and> files demo_world (''data/idx'' @ ''.metadata.json'') = None"
proof -
  have h: "\<not> mutex_locked disk_empty" "auto_save (config disk_empty)"
    "index_path (config disk_empty) \<noteq> []"
    "save_interval (config disk_empty)
       \<le> to_seconds (steady_now late_world - last_save disk_empty)"
    using disk_empty_due by simp_all
  note t = auto_save_relocks_mutex [OF h, where doc_id = "''a''" and content = "''alpha''"
      and metadata = JNull and H = exact_hnsw and embedding = "[Finite 1, Finite 0]" and doc_ids = "[''a'']"
      and embeddings = "[[Finite 1, Finite 0]]" and contents = "[''alpha'']" and metadatas = "[]"]
  from t disk_empty_accepts
  have 1: "add_document exact_hnsw late_world disk_empty ''a'' [Finite 1, Finite 0] ''alpha'' JNull = None"
    by blast
  from t have 2: "add_batch exact_hnsw late_world disk_empty [''a''] [[Finite 1, Finite 0]] [''alpha''] [] = None"
    by simp
  have 3: "map_option fst (add_document exact_hnsw demo_world disk_empty ''a'' [Finite 1, Finite 0] ''alpha'' JNull)
       = Some (Inr True)"
    by code_simp
  have 4: "files demo_world (''data/idx'' @ ''.metadata.json'') = None" by code_simp
  from 1 2 3 4 show ?thesis by blast
qed

section \<open>Snapshots\<close>




















text \<open>
  A snapshot path without a directory part: \<^verbatim>\<open>create_directories\<close> runs on the
  empty parent path and throws, and \<^verbatim>\<open>save()\<close> returns false.
\<close>

lemma save_without_directory_part:
  "parent_path ''idx'' = []
   \<and> map_option fst (save exact_hnsw demo_world (the (set_index_path disk_one ''idx'')))
       = Some False"
  by code_simp

end
